theory Spec2Isabelle
  imports Main "HOL-Library.Word" "HOL-Library.Sublist"
begin

unbundle bit_operations_syntax

section \<open>Constants of monitor.c\<close>

text \<open>The macros of lines 12 to 50, with the names the source gives them.\<close>

definition CPU_TRACKING_WINDOW_MS :: int where "CPU_TRACKING_WINDOW_MS = 500"
definition IO_TRACKING_WINDOW_MS :: int where "IO_TRACKING_WINDOW_MS = 1000"
definition MEMORY_TRACKING_WINDOW_MS :: int where "MEMORY_TRACKING_WINDOW_MS = 750"
definition MS_TO_US :: int where "MS_TO_US = 1000"

definition CPU_TRIGGER_THRESHOLD_MS :: int where "CPU_TRIGGER_THRESHOLD_MS = 50"
definition IO_TRIGGER_THRESHOLD_MS :: int where "IO_TRIGGER_THRESHOLD_MS = 100"
definition MEMORY_TRIGGER_THRESHOLD_MS :: int where "MEMORY_TRIGGER_THRESHOLD_MS = 75"

definition CPU_PRESSURE_FILE :: string where "CPU_PRESSURE_FILE = ''/proc/pressure/cpu''"
definition IO_PRESSURE_FILE :: string where "IO_PRESSURE_FILE = ''/proc/pressure/io''"
definition MEMORY_PRESSURE_FILE :: string where "MEMORY_PRESSURE_FILE = ''/proc/pressure/memory''"

definition FD_CPU_IDX :: nat where "FD_CPU_IDX = 0"
definition FD_IO_IDX :: nat where "FD_IO_IDX = 1"
definition FD_MEMORY_IDX :: nat where "FD_MEMORY_IDX = 2"

definition SZ_IDX :: nat where "SZ_IDX = 3"
definition SZ_CONTENT :: nat where "SZ_CONTENT = 128"
definition SZ_EVENT :: nat where "SZ_EVENT = 256"

definition ERROR_KERNEL_UNSUPPORTED :: int where "ERROR_KERNEL_UNSUPPORTED = 1"
definition ERROR_PRESSURE_OPEN :: int where "ERROR_PRESSURE_OPEN = 2"
definition ERROR_PRESSURE_WRITE :: int where "ERROR_PRESSURE_WRITE = 3"
definition ERROR_PRESSURE_POLL_FDS :: int where "ERROR_PRESSURE_POLL_FDS = 4"
definition ERROR_PRESSURE_FILE_GONE :: int where "ERROR_PRESSURE_FILE_GONE = 5"
definition ERROR_PRESSURE_EVENT_UNK :: int where "ERROR_PRESSURE_EVENT_UNK = 6"

text \<open>
  The poll bits and signal numbers come from the system headers \<^verbatim>\<open><poll.h>\<close> and
  \<^verbatim>\<open><signal.h>\<close>; these are their Linux values. The fields \<^verbatim>\<open>events\<close> and
  \<^verbatim>\<open>revents\<close> of \<^verbatim>\<open>struct pollfd\<close> are C shorts, 16 bits wide.
\<close>

definition POLLPRI :: "16 word" where "POLLPRI = 0x002"
definition POLLERR :: "16 word" where "POLLERR = 0x008"
definition POLLHUP :: "16 word" where "POLLHUP = 0x010"

definition SIGINT :: int where "SIGINT = 2"
definition SIGTERM :: int where "SIGTERM = 15"

definition NUL :: char where "NUL = CHR 0x00"
definition NL :: char where "NL = CHR 0x0A"

section \<open>Formatting\<close>

text \<open>
  The conversions \<^verbatim>\<open>%d\<close>, \<^verbatim>\<open>%i\<close> and \<^verbatim>\<open>%x\<close> of printf. \<^verbatim>\<open>%x\<close> takes its
  argument as an unsigned int: a short is promoted to int first, so a negative
  \<^verbatim>\<open>revents\<close> is printed modulo \<open>2 ^ 32\<close>.
\<close>

fun show_nat :: "nat \<Rightarrow> string" where
  "show_nat n =
     (if n < 10 then [''0123456789'' ! n]
      else show_nat (n div 10) @ [''0123456789'' ! (n mod 10)])"

declare show_nat.simps [simp del]

definition show_int :: "int \<Rightarrow> string" where
  "show_int k = (if k < 0 then CHR ''-'' # show_nat (nat (- k)) else show_nat (nat k))"

fun show_hex_nat :: "nat \<Rightarrow> string" where
  "show_hex_nat n =
     (if n < 16 then [''0123456789abcdef'' ! n]
      else show_hex_nat (n div 16) @ [''0123456789abcdef'' ! (n mod 16)])"

declare show_hex_nat.simps [simp del]

definition show_hex_short :: "16 word \<Rightarrow> string" where
  "show_hex_short r = show_hex_nat (nat (sint r mod 2 ^ 32))"

text \<open>
  A char array read as a C string by \<^verbatim>\<open>%s\<close>: the bytes before the first NUL. An array
  that holds no NUL has no string inside its bounds (printf would read past its end),
  which is \<open>None\<close> here.
\<close>

definition c_str :: "char list \<Rightarrow> string option" where
  "c_str buf = (if NUL \<in> set buf then Some (takeWhile (\<lambda>c. c \<noteq> NUL) buf) else None)"

section \<open>Program state and observable actions\<close>

datatype open_mode = O_RDWR_NONBLOCK | O_RDONLY_NONBLOCK

text \<open>
  What the process does to its environment, in program order. The two printf calls that
  pass \<^verbatim>\<open>content_str\<close> to \<^verbatim>\<open>%s\<close> are recorded with the array itself (see \<open>c_str\<close>
  for what \<^verbatim>\<open>%s\<close> makes of it); all other output is recorded as the text written.
  \<open>Store_continue_event_loop\<close> is the assignment to the run flag.
\<close>

datatype event =
    Stdout string
  | Stderr string
  | Printf_content string "char list"
  | Printf_report string int string "char list"
  | Fflush_stdout
  | Sys_open string open_mode int
  | Sys_read int nat
  | Sys_write int "char list" int
  | Sys_signal int
  | Sys_usleep int
  | Sys_close int
  | Store_continue_event_loop int

record pollfd =
  fd :: int
  events :: "16 word"
  revents :: "16 word"

text \<open>
  The globals of lines 59 to 65. The arrays have \<open>SZ_IDX\<close> entries and are only ever
  indexed by a loop variable below \<open>SZ_IDX\<close>, so they are functions from the index.
  \<open>out\<close> is the trace of observable actions so far.
\<close>

record state =
  fds :: "nat \<Rightarrow> pollfd"
  content_str :: "char list"
  pressure_file :: "nat \<Rightarrow> string"
  time_str :: string
  delay_threshold_ms :: "nat \<Rightarrow> int"
  tracking_window_ms :: "nat \<Rightarrow> int"
  continue_event_loop :: int
  out :: "event list"

definition emit :: "event \<Rightarrow> state \<Rightarrow> state" where
  "emit e s = s\<lparr>out := out s @ [e]\<rparr>"

text \<open>The globals as the C runtime initialises them (all zero, the run flag 1).\<close>

definition initial_state :: state where
  "initial_state =
     \<lparr>fds = (\<lambda>_. \<lparr>fd = 0, events = 0, revents = 0\<rparr>),
      content_str = replicate SZ_CONTENT NUL,
      pressure_file = (\<lambda>_. []),
      time_str = [],
      delay_threshold_ms = (\<lambda>_. 0),
      tracking_window_ms = (\<lambda>_. 0),
      continue_event_loop = 1,
      out = []\<rparr>"

section \<open>populate_arrays (lines 194 to 204)\<close>

definition populate_arrays :: "state \<Rightarrow> state" where
  "populate_arrays s =
     s\<lparr>pressure_file := (pressure_file s)
          (0 := ''/proc/pressure/cpu'', 1 := ''/proc/pressure/io'', 2 := ''/proc/pressure/memory''),
       delay_threshold_ms := (delay_threshold_ms s)
          (0 := CPU_TRIGGER_THRESHOLD_MS, 1 := IO_TRIGGER_THRESHOLD_MS,
           2 := MEMORY_TRIGGER_THRESHOLD_MS),
       tracking_window_ms := (tracking_window_ms s)
          (0 := CPU_TRACKING_WINDOW_MS, 1 := IO_TRACKING_WINDOW_MS,
           2 := MEMORY_TRACKING_WINDOW_MS)\<rparr>"

section \<open>close_fds and sig_handler (lines 68 to 88)\<close>

text \<open>
  The body of the loop of \<^verbatim>\<open>close_fds\<close>: the notice, the sleep, the close. The process
  is suspended in \<^verbatim>\<open>usleep\<close>, and a signal delivered meanwhile runs its handler before
  \<^verbatim>\<open>usleep\<close> returns; \<open>during i\<close> is what runs during the sleep of round \<open>i\<close> (the
  identity when no signal arrives). \<open>Sys_usleep\<close> records the duration asked for.
\<close>

definition close_fd_round :: "(nat \<Rightarrow> state \<Rightarrow> state) \<Rightarrow> nat \<Rightarrow> state \<Rightarrow> state" where
  "close_fd_round during i s =
     (let s1 = emit (Stderr (''Closing file descriptor fds['' @ show_int (int i) @ ''] for ''
                              @ pressure_file s i @ [NL])) s;
          s2 = emit (Sys_usleep (tracking_window_ms s1 i * MS_TO_US)) s1;
          s3 = during i s2
      in emit (Sys_close (fd (fds s3 i))) s3)"

fun close_fds_loop :: "(nat \<Rightarrow> state \<Rightarrow> state) \<Rightarrow> nat list \<Rightarrow> state \<Rightarrow> state" where
  "close_fds_loop during [] s = s"
| "close_fds_loop during (i # rest) s = close_fds_loop during rest (close_fd_round during i s)"

definition close_fds_with :: "(nat \<Rightarrow> state \<Rightarrow> state) \<Rightarrow> state \<Rightarrow> state" where
  "close_fds_with during s =
     (let s1 = emit (Stderr (''Please wait until all three file descriptors are closed'' @ [NL])) s;
          s2 = close_fds_loop during [0..<SZ_IDX] s1
      in emit (Stderr ([NL] @ ''All file descriptors now closed, exiting now!'' @ [NL])) s2)"

definition sig_handler_with :: "(nat \<Rightarrow> state \<Rightarrow> state) \<Rightarrow> int \<Rightarrow> state \<Rightarrow> state" where
  "sig_handler_with during sig_num s =
     (let s1 = emit (Stdout ([NL] @ ''Terminating in response to Ctrl+C '' @ [NL])) s;
          s2 = emit (Sys_signal SIGINT) s1;
          s3 = emit (Sys_signal SIGTERM) s2;
          s4 = emit (Store_continue_event_loop 0) (s3\<lparr>continue_event_loop := 0\<rparr>);
          s5 = close_fds_with during s4
      in emit Fflush_stdout s5)"

text \<open>The handler and the drain when no further signal arrives while they run.\<close>

definition close_fds :: "state \<Rightarrow> state" where
  "close_fds = close_fds_with (\<lambda>i s. s)"

definition sig_handler :: "int \<Rightarrow> state \<Rightarrow> state" where
  "sig_handler = sig_handler_with (\<lambda>i s. s)"

text \<open>
  A second signal \<open>sig2\<close> delivered while the handler for \<open>sig1\<close> sleeps in round \<open>k\<close>
  of the drain: the handler runs again, nested, and the first drain then goes on.
\<close>

definition sig_handler_interrupted :: "nat \<Rightarrow> int \<Rightarrow> int \<Rightarrow> state \<Rightarrow> state" where
  "sig_handler_interrupted k sig2 sig1 =
     sig_handler_with (\<lambda>i s. if i = k then sig_handler sig2 s else s) sig1"

section \<open>set_time_str and set_content_str (lines 91 to 108)\<close>

text \<open>
  \<open>set_time_str\<close> ignores its argument \<open>fmt\<close>; the text strftime produces for the
  local time is given by the environment.
\<close>

definition set_time_str :: "string \<Rightarrow> state \<Rightarrow> state" where
  "set_time_str now s = s\<lparr>time_str := now\<rparr>"

text \<open>
  What the environment answers to one call of \<open>set_content_str\<close>: the descriptor that
  open returns (negative on failure) and the bytes the file holds. The results of open,
  read and close are not checked by the code; on a failed open the read fails too and
  stores nothing.
\<close>

record content_io =
  rd_fd :: int
  rd_data :: "char list"

definition set_content_str :: "content_io \<Rightarrow> nat \<Rightarrow> state \<Rightarrow> state" where
  "set_content_str io psi_idx s =
     (let zeroed = replicate SZ_CONTENT NUL;
          s1 = emit (Sys_open (pressure_file s psi_idx) O_RDONLY_NONBLOCK (rd_fd io))
                 (s\<lparr>content_str := zeroed\<rparr>);
          got = (if rd_fd io < 0 then [] else take SZ_CONTENT (rd_data io));
          s2 = emit (Sys_read (rd_fd io) SZ_CONTENT)
                 (s1\<lparr>content_str := got @ drop (length got) zeroed\<rparr>)
      in emit (Sys_close (rd_fd io)) s2)"

section \<open>poll_pressure_events (lines 114 to 138)\<close>

record reg_io =
  open_ret :: int
  reg_content :: content_io
  write_ret :: int

text \<open>
  snprintf with the format \<^verbatim>\<open>some %d %d\<close> into an array of \<open>SZ_EVENT\<close> bytes keeps at
  most \<open>SZ_EVENT - 1\<close> characters. The products are C ints; with the values of
  \<open>populate_arrays\<close> they are at most 1000000.
\<close>

definition distress_event :: "nat \<Rightarrow> state \<Rightarrow> string" where
  "distress_event i s =
     take (SZ_EVENT - 1)
       (''some '' @ show_int (delay_threshold_ms s i * MS_TO_US) @ '' ''
          @ show_int (tracking_window_ms s i * MS_TO_US))"

text \<open>
  One round of the registration loop. The result is \<open>Some code\<close> when the round calls
  \<^verbatim>\<open>exit(code)\<close>. The write passes \<^verbatim>\<open>strlen(distress_event) + 1\<close> bytes: the string
  and its terminating NUL.
\<close>

definition register_fd :: "reg_io \<Rightarrow> nat \<Rightarrow> state \<Rightarrow> int option \<times> state" where
  "register_fd io i s =
     (let s1 = emit (Sys_open (pressure_file s i) O_RDWR_NONBLOCK (open_ret io))
                 (s\<lparr>fds := (fds s)(i := (fds s i)\<lparr>fd := open_ret io\<rparr>)\<rparr>)
      in if fd (fds s1 i) < 0
         then (Some ERROR_PRESSURE_OPEN,
               emit (Stderr (''Error open() pressure file '' @ pressure_file s1 i @ '':'')) s1)
         else
           let s2 = s1\<lparr>fds := (fds s1)(i := (fds s1 i)\<lparr>events := POLLPRI\<rparr>)\<rparr>;
               de = distress_event i s2;
               s3 = emit (Stdout ([NL] @ pressure_file s2 i @ '' distress_event:'' @ [NL]
                                  @ de @ [NL])) s2;
               s4 = set_content_str (reg_content io) i s3;
               s5 = emit (Printf_content (pressure_file s4 i) (content_str s4)) s4;
               s6 = emit (Sys_write (fd (fds s5 i)) (de @ [NUL]) (write_ret io)) s5
           in if write_ret io < 0
              then (Some ERROR_PRESSURE_WRITE,
                    emit (Stderr (''Error write() pressure file: '' @ pressure_file s6 i @ [NL])) s6)
              else (None, s6))"

fun register_loop :: "(nat \<Rightarrow> reg_io) \<Rightarrow> nat list \<Rightarrow> state \<Rightarrow> int option \<times> state" where
  "register_loop env [] s = (None, s)"
| "register_loop env (i # rest) s =
     (case register_fd (env i) i s of
        (Some code, s') \<Rightarrow> (Some code, s')
      | (None, s') \<Rightarrow> register_loop env rest s')"

definition poll_pressure_events :: "(nat \<Rightarrow> reg_io) \<Rightarrow> state \<Rightarrow> int option \<times> state" where
  "poll_pressure_events env s = register_loop env [0..<SZ_IDX] s"

section \<open>pressure_event_loop (lines 144 to 178)\<close>

text \<open>
  What the environment does in one pass of the while loop. The process is suspended
  in \<^verbatim>\<open>poll\<close>; \<open>sig_in_poll\<close> is the signal, if any, whose handler ran before control
  came back from the wait to line 154. \<open>poll_ret\<close> is the value \<^verbatim>\<open>poll\<close> returns and
  \<open>poll_revents i\<close> what it left in \<^verbatim>\<open>fds[i].revents\<close>. \<open>clock i\<close> and \<open>content i\<close>
  are what the report for domain \<open>i\<close> would find: the formatted local time and the
  answer to its content read.
\<close>

record wake =
  sig_in_poll :: "int option"
  poll_ret :: int
  poll_revents :: "nat \<Rightarrow> 16 word"
  clock :: "nat \<Rightarrow> string"
  content :: "nat \<Rightarrow> content_io"

datatype outcome = Exited int | Returned | Blocked

definition poll :: "wake \<Rightarrow> state \<Rightarrow> state" where
  "poll w s =
     (let s1 = (case sig_in_poll w of None \<Rightarrow> s | Some sig_num \<Rightarrow> sig_handler sig_num s)
      in s1\<lparr>fds := (\<lambda>i. if i < SZ_IDX then (fds s1 i)\<lparr>revents := poll_revents w i\<rparr>
                         else fds s1 i)\<rparr>)"

text \<open>
  The body of the for loop, lines 161 to 175. \<open>ec\<close> is the local array
  \<^verbatim>\<open>event_counter\<close>, of C ints (32 bits); \<^verbatim>\<open>%i\<close> prints the value before the
  increment. The result is \<open>Some code\<close> when the body calls \<^verbatim>\<open>exit(code)\<close>.
\<close>

definition handle_fd ::
  "wake \<Rightarrow> nat \<Rightarrow> (nat \<Rightarrow> 32 word) \<Rightarrow> state \<Rightarrow> int option \<times> (nat \<Rightarrow> 32 word) \<times> state" where
  "handle_fd w i ec s =
     (if revents (fds s i) = 0 \<or> continue_event_loop s = 0 then (None, ec, s)
      else if revents (fds s i) AND POLLERR \<noteq> 0
      then (Some ERROR_PRESSURE_FILE_GONE, ec,
            emit (Stderr ([NL] @ ''Error: poll() event source is gone.'' @ [NL])) s)
      else if events (fds s i) \<noteq> 0
      then
        let s1 = set_time_str (clock w i) s;
            s2 = set_content_str (content w i) i s1;
            s3 = emit (Printf_report (pressure_file s2 i) (sint (ec i)) (time_str s2)
                         (content_str s2)) s2
        in (None, ec(i := ec i + 1), s3)
      else (Some ERROR_PRESSURE_EVENT_UNK, ec,
            emit (Stderr ([NL] @ ''Unrecognized event: 0x'' @ show_hex_short (revents (fds s i))
                          @ ''.'' @ [NL])) s))"

fun handle_fds ::
  "wake \<Rightarrow> nat list \<Rightarrow> (nat \<Rightarrow> 32 word) \<Rightarrow> state \<Rightarrow> int option \<times> (nat \<Rightarrow> 32 word) \<times> state" where
  "handle_fds w [] ec s = (None, ec, s)"
| "handle_fds w (i # rest) ec s =
     (case handle_fd w i ec s of
        (Some code, ec', s') \<Rightarrow> (Some code, ec', s')
      | (None, ec', s') \<Rightarrow> handle_fds w rest ec' s')"

text \<open>
  The while loop, one wake of the environment per pass. With the run flag still 1 and
  no wake left the process stays suspended in \<^verbatim>\<open>poll\<close>, which has no timeout: that is
  \<open>Blocked\<close>. \<open>Returned\<close> is the loop left by its condition or by the break of line 154.
  The result carries the local array \<^verbatim>\<open>event_counter\<close> along with the globals.
\<close>

fun event_loop ::
  "wake list \<Rightarrow> (nat \<Rightarrow> 32 word) \<Rightarrow> state \<Rightarrow> outcome \<times> (nat \<Rightarrow> 32 word) \<times> state" where
  "event_loop [] ec s = (if continue_event_loop s = 1 then Blocked else Returned, ec, s)"
| "event_loop (w # ws) ec s =
     (if continue_event_loop s \<noteq> 1 then (Returned, ec, s)
      else
        let s1 = poll w s
        in if continue_event_loop s1 = 0 then (Returned, ec, s1)
           else if poll_ret w < 0
           then (Exited ERROR_PRESSURE_POLL_FDS, ec,
                 emit (Stderr ([NL] @ ''Error using poll() function'' @ [NL])) s1)
           else
             (case handle_fds w [0..<SZ_IDX] ec s1 of
                (Some code, ec', s2) \<Rightarrow> (Exited code, ec', s2)
              | (None, ec', s2) \<Rightarrow> event_loop ws ec' s2))"

definition pressure_event_loop :: "wake list \<Rightarrow> state \<Rightarrow> outcome \<times> state" where
  "pressure_event_loop ws s =
     (case event_loop ws (\<lambda>i. 1) (emit (Stdout ([NL] @ ''Polling for events...'' @ [NL])) s) of
        (r, ec, s') \<Rightarrow> (r, s'))"

section \<open>verify_proc_pressure and main (lines 180 to 214)\<close>

definition verify_proc_pressure :: "int \<Rightarrow> string \<Rightarrow> state \<Rightarrow> int option \<times> state" where
  "verify_proc_pressure sret now s =
     (if sret = - 1
      then (Some ERROR_KERNEL_UNSUPPORTED,
            emit (Stderr (''To monitor with poll() in Linux, uname -r must report a kernel version of 5.2+''
                          @ [NL])) s)
      else
        let s1 = set_time_str now s
        in (None, emit (Stdout (''Polling events starting at '' @ time_str s1)) s1))"

text \<open>
  The whole run from the initial globals. Argument parsing (line 207) is left out. The
  handlers are installed after registration; a \<^verbatim>\<open>main\<close> that reaches its closing brace
  returns 0, so the loop having returned is exit status 0.
\<close>

record run_env =
  stat_ret :: int
  start_time :: string
  reg :: "nat \<Rightarrow> reg_io"
  wakes :: "wake list"

definition main :: "run_env \<Rightarrow> outcome \<times> state" where
  "main env =
     (let s1 = populate_arrays initial_state
      in case verify_proc_pressure (stat_ret env) (start_time env) s1 of
           (Some code, s2) \<Rightarrow> (Exited code, s2)
         | (None, s2) \<Rightarrow>
             (case poll_pressure_events (reg env) s2 of
                (Some code, s3) \<Rightarrow> (Exited code, s3)
              | (None, s3) \<Rightarrow>
                  let s4 = emit (Sys_signal SIGTERM) s3;
                      s5 = emit (Sys_signal SIGINT) s4
                  in (case pressure_event_loop (wakes env) s5 of
                        (Returned, s6) \<Rightarrow> (Exited 0, s6)
                      | (r, s6) \<Rightarrow> (r, s6))))"

text \<open>
  Whether \<^verbatim>\<open>main\<close> gets as far as the event loop, and the globals with which it
  enters it: after \<open>populate_arrays\<close>, the check of the CPU file, a registration that
  did not exit, and the installation of the two handlers.
\<close>

definition startup_ok :: "run_env \<Rightarrow> bool" where
  "startup_ok env \<longleftrightarrow>
     stat_ret env \<noteq> - 1 \<and>
     fst (poll_pressure_events (reg env)
            (snd (verify_proc_pressure (stat_ret env) (start_time env)
                    (populate_arrays initial_state)))) = None"

definition loop_entry :: "run_env \<Rightarrow> state" where
  "loop_entry env =
     emit (Sys_signal SIGINT)
       (emit (Sys_signal SIGTERM)
          (snd (poll_pressure_events (reg env)
                  (snd (verify_proc_pressure (stat_ret env) (start_time env)
                          (populate_arrays initial_state))))))"

section \<open>Reading the trace\<close>

definition closes_of :: "event list \<Rightarrow> int list" where
  "closes_of es = concat (map (\<lambda>e. case e of Sys_close d \<Rightarrow> [d] | _ \<Rightarrow> []) es)"

definition opens_of :: "event list \<Rightarrow> string list" where
  "opens_of es = concat (map (\<lambda>e. case e of Sys_open p m r \<Rightarrow> [p] | _ \<Rightarrow> []) es)"

definition writes_of :: "event list \<Rightarrow> (int \<times> char list) list" where
  "writes_of es = concat (map (\<lambda>e. case e of Sys_write d bs r \<Rightarrow> [(d, bs)] | _ \<Rightarrow> []) es)"

definition report_paths :: "event list \<Rightarrow> string list" where
  "report_paths es = concat (map (\<lambda>e. case e of Printf_report p c t b \<Rightarrow> [p] | _ \<Rightarrow> []) es)"

definition counts_of :: "string \<Rightarrow> event list \<Rightarrow> int list" where
  "counts_of p es =
     concat (map (\<lambda>e. case e of Printf_report q c t b \<Rightarrow> (if q = p then [c] else []) | _ \<Rightarrow> []) es)"

text \<open>
  The arrays as \<open>populate_arrays\<close> leaves them, and the handles as registration leaves
  them. Nothing after \<open>populate_arrays\<close> assigns to the three configuration arrays, and
  nothing after registration assigns to \<^verbatim>\<open>events\<close>.
\<close>

definition configured :: "state \<Rightarrow> bool" where
  "configured s \<longleftrightarrow>
     pressure_file s 0 = ''/proc/pressure/cpu'' \<and> pressure_file s 1 = ''/proc/pressure/io'' \<and>
     pressure_file s 2 = ''/proc/pressure/memory'' \<and>
     delay_threshold_ms s 0 = 50 \<and> delay_threshold_ms s 1 = 100 \<and> delay_threshold_ms s 2 = 75 \<and>
     tracking_window_ms s 0 = 500 \<and> tracking_window_ms s 1 = 1000 \<and> tracking_window_ms s 2 = 750"

definition registered :: "state \<Rightarrow> bool" where
  "registered s \<longleftrightarrow>
     events (fds s 0) = POLLPRI \<and> events (fds s 1) = POLLPRI \<and> events (fds s 2) = POLLPRI"

text \<open>
  The steps of the shutdown drain in a trace: the store to the run flag, the sleeps and
  the closes, in the order they happened.
\<close>

definition drain_steps :: "event list \<Rightarrow> event list" where
  "drain_steps es =
     filter (\<lambda>e. case e of Store_continue_event_loop v \<Rightarrow> True | Sys_usleep u \<Rightarrow> True
                 | Sys_close d \<Rightarrow> True | _ \<Rightarrow> False) es"

section \<open>Example runs\<close>

text \<open>
  A registration in which every call succeeds: the three handles are the descriptors
  3, 4 and 5, each content read uses descriptor 6, and each write reports the full
  length of its descriptor string with the terminating NUL.
\<close>

definition example_content :: content_io where
  "example_content =
     \<lparr>rd_fd = 6, rd_data = ''some avg10=0.00 avg60=0.00 avg300=0.00 total=0'' @ [NL]\<rparr>"

definition example_reg :: "nat \<Rightarrow> reg_io" where
  "example_reg i =
     \<lparr>open_ret = 3 + int i, reg_content = example_content,
      write_ret = (if i = 1 then 20 else 18)\<rparr>"

text \<open>The same registration, but the write for IO fails.\<close>

definition write_error_reg :: "nat \<Rightarrow> reg_io" where
  "write_error_reg i = (example_reg i)\<lparr>write_ret := (if i = 1 then - 1 else 18)\<rparr>"

text \<open>The same registration, but every write stores only 5 bytes.\<close>

definition short_write_reg :: "nat \<Rightarrow> reg_io" where
  "short_write_reg i = (example_reg i)\<lparr>write_ret := 5\<rparr>"

text \<open>
  A pressure file of 128 bytes: two lines of 64 bytes in the kernel's format, with
  totals of 15 digits.
\<close>

definition long_content :: content_io where
  "long_content =
     \<lparr>rd_fd = 6,
      rd_data = ''some avg10=12.34 avg60=12.34 avg300=12.34 total=123456789012345'' @ [NL]
                @ ''full avg10=12.34 avg60=12.34 avg300=12.34 total=123456789012345'' @ [NL]\<rparr>"

text \<open>
  Wakes for the event loop. In each the wait returns without a signal; the report of
  any domain finds the time and the content below.
\<close>

definition example_clock :: "nat \<Rightarrow> string" where
  "example_clock i = ''2020-02-02 10:00:00''"


text \<open>The CPU handle signals only a hang-up, which is neither POLLPRI nor POLLERR.\<close>

definition hangup_wake :: wake where
  "hangup_wake =
     \<lparr>sig_in_poll = None, poll_ret = 1,
      poll_revents = (\<lambda>i. if i = 0 then POLLHUP else 0),
      clock = example_clock, content = (\<lambda>i. example_content)\<rparr>"



text \<open>The wait is interrupted by SIGINT and returns -1.\<close>

definition sigint_wake :: wake where
  "sigint_wake =
     \<lparr>sig_in_poll = Some SIGINT, poll_ret = - 1,
      poll_revents = (\<lambda>i. 0),
      clock = example_clock, content = (\<lambda>i. example_content)\<rparr>"

text \<open>The wait fails and returns -1 with no signal delivered.\<close>

definition failed_wake :: wake where
  "failed_wake =
     \<lparr>sig_in_poll = None, poll_ret = - 1,
      poll_revents = (\<lambda>i. 0),
      clock = example_clock, content = (\<lambda>i. example_content)\<rparr>"

text \<open>The CPU handle signals POLLPRI while its file holds \<open>long_content\<close>.\<close>

definition long_content_wake :: wake where
  "long_content_wake =
     \<lparr>sig_in_poll = None, poll_ret = 1,
      poll_revents = (\<lambda>i. if i = 0 then POLLPRI else 0),
      clock = example_clock, content = (\<lambda>i. long_content)\<rparr>"

text \<open>All three handles signal POLLPRI in the same wake.\<close>

definition all_distress_wake :: wake where
  "all_distress_wake =
     \<lparr>sig_in_poll = None, poll_ret = 3,
      poll_revents = (\<lambda>i. POLLPRI),
      clock = example_clock, content = (\<lambda>i. example_content)\<rparr>"

text \<open>
  A whole run: the CPU file exists, registration is \<open>example_reg\<close>, and the wakes are
  given. \<open>example_registered\<close> is the state with which this run enters the event loop,
  and \<open>example_counters\<close> the counters with which it starts.
\<close>

definition example_env :: "wake list \<Rightarrow> run_env" where
  "example_env ws =
     \<lparr>stat_ret = 0, start_time = ''2020-02-02 09:59:00'', reg = example_reg, wakes = ws\<rparr>"

definition example_registered :: state where
  "example_registered = loop_entry (example_env [])"

definition example_counters :: "nat \<Rightarrow> 32 word" where
  "example_counters i = 1"

section \<open>Basic facts\<close>

lemma upt_SZ_IDX: "[0..<SZ_IDX] = [0, 1, 2]"
  by (simp add: SZ_IDX_def upt_rec)

lemma below_SZ_IDX: "k < SZ_IDX \<longleftrightarrow> k = 0 \<or> k = 1 \<or> k = 2"
  unfolding SZ_IDX_def by arith

lemma all_below_SZ_IDX: "(\<forall>i<SZ_IDX. P i) \<longleftrightarrow> P 0 \<and> P 1 \<and> P 2"
  by (auto simp: below_SZ_IDX)

lemma all_below_2: "(\<forall>j<2::nat. P j) \<longleftrightarrow> P 0 \<and> P 1"
  by (auto simp: less_2_cases_iff)

lemma ex_below_SZ_IDX: "(\<exists>i<SZ_IDX. P i) \<longleftrightarrow> P 0 \<or> P 1 \<or> P 2"
  by (auto simp: below_SZ_IDX)

lemma emit_fields [simp]:
  "out (emit e s) = out s @ [e]"
  "fds (emit e s) = fds s"
  "content_str (emit e s) = content_str s"
  "pressure_file (emit e s) = pressure_file s"
  "time_str (emit e s) = time_str s"
  "delay_threshold_ms (emit e s) = delay_threshold_ms s"
  "tracking_window_ms (emit e s) = tracking_window_ms s"
  "continue_event_loop (emit e s) = continue_event_loop s"
  by (simp_all add: emit_def)

lemma closes_of_simps [simp]:
  "closes_of [] = []"
  "closes_of (xs @ ys) = closes_of xs @ closes_of ys"
  "closes_of (e # es) = (case e of Sys_close d \<Rightarrow> [d] | _ \<Rightarrow> []) @ closes_of es"
  by (simp_all add: closes_of_def)

lemma opens_of_simps [simp]:
  "opens_of [] = []"
  "opens_of (xs @ ys) = opens_of xs @ opens_of ys"
  "opens_of (e # es) = (case e of Sys_open p m r \<Rightarrow> [p] | _ \<Rightarrow> []) @ opens_of es"
  by (simp_all add: opens_of_def)

lemma writes_of_simps [simp]:
  "writes_of [] = []"
  "writes_of (xs @ ys) = writes_of xs @ writes_of ys"
  "writes_of (e # es) = (case e of Sys_write d bs r \<Rightarrow> [(d, bs)] | _ \<Rightarrow> []) @ writes_of es"
  by (simp_all add: writes_of_def)

lemma report_paths_simps [simp]:
  "report_paths [] = []"
  "report_paths (xs @ ys) = report_paths xs @ report_paths ys"
  "report_paths (e # es) = (case e of Printf_report p c t b \<Rightarrow> [p] | _ \<Rightarrow> []) @ report_paths es"
  by (simp_all add: report_paths_def)

lemma counts_of_simps [simp]:
  "counts_of p [] = []"
  "counts_of p (xs @ ys) = counts_of p xs @ counts_of p ys"
  "counts_of p (e # es) =
     (case e of Printf_report q c t b \<Rightarrow> (if q = p then [c] else []) | _ \<Rightarrow> []) @ counts_of p es"
  by (simp_all add: counts_of_def)

lemma drain_steps_simps [simp]:
  "drain_steps [] = []"
  "drain_steps (xs @ ys) = drain_steps xs @ drain_steps ys"
  "drain_steps (e # es) =
     (case e of Store_continue_event_loop v \<Rightarrow> [e] | Sys_usleep u \<Rightarrow> [e] | Sys_close d \<Rightarrow> [e]
      | _ \<Rightarrow> []) @ drain_steps es"
  by (simp_all add: drain_steps_def split: event.splits)

lemma show_int_values:
  "show_int 0 = ''0''" "show_int 1 = ''1''" "show_int 2 = ''2''"
  "show_int 50000 = ''50000''" "show_int 500000 = ''500000''"
  "show_int 100000 = ''100000''" "show_int 1000000 = ''1000000''"
  "show_int 75000 = ''75000''" "show_int 750000 = ''750000''"
  by (simp_all add: show_int_def show_nat.simps)

lemma configured_cong:
  "pressure_file s' = pressure_file s \<Longrightarrow> delay_threshold_ms s' = delay_threshold_ms s \<Longrightarrow>
   tracking_window_ms s' = tracking_window_ms s \<Longrightarrow> configured s' = configured s"
  by (simp add: configured_def)

lemma configured_populate_arrays: "configured (populate_arrays s)"
  by (simp add: configured_def populate_arrays_def CPU_TRIGGER_THRESHOLD_MS_def
      IO_TRIGGER_THRESHOLD_MS_def MEMORY_TRIGGER_THRESHOLD_MS_def CPU_TRACKING_WINDOW_MS_def
      IO_TRACKING_WINDOW_MS_def MEMORY_TRACKING_WINDOW_MS_def)

lemma distress_event_configured:
  assumes "configured s"
  shows "distress_event 0 s = ''some 50000 500000''"
    and "distress_event 1 s = ''some 100000 1000000''"
    and "distress_event 2 s = ''some 75000 750000''"
  using assms
  by (simp_all add: configured_def distress_event_def MS_TO_US_def SZ_EVENT_def show_int_values)

lemma distress_event_cong:
  "delay_threshold_ms s' = delay_threshold_ms s \<Longrightarrow>
   tracking_window_ms s' = tracking_window_ms s \<Longrightarrow> distress_event i s' = distress_event i s"
  by (simp add: distress_event_def)

section \<open>The content read\<close>

lemma set_content_str_fields [simp]:
  "fds (set_content_str io i s) = fds s"
  "pressure_file (set_content_str io i s) = pressure_file s"
  "time_str (set_content_str io i s) = time_str s"
  "delay_threshold_ms (set_content_str io i s) = delay_threshold_ms s"
  "tracking_window_ms (set_content_str io i s) = tracking_window_ms s"
  "continue_event_loop (set_content_str io i s) = continue_event_loop s"
  "out (set_content_str io i s) =
     out s @ [Sys_open (pressure_file s i) O_RDONLY_NONBLOCK (rd_fd io),
              Sys_read (rd_fd io) SZ_CONTENT, Sys_close (rd_fd io)]"
  by (simp_all add: set_content_str_def Let_def)

text \<open>
  The array after a content read: the first \<open>SZ_CONTENT\<close> bytes of the file, then
  zeros; nothing of the previous content is left.
\<close>

lemma set_content_str_buffer:
  "content_str (set_content_str io i s) =
     (if rd_fd io < 0 then replicate SZ_CONTENT NUL
      else take SZ_CONTENT (rd_data io) @ replicate (SZ_CONTENT - length (rd_data io)) NUL)"
  by (simp add: set_content_str_def Let_def min_def)

lemma length_content_str:
  "length (content_str (set_content_str io i s)) = SZ_CONTENT"
  by (auto simp: set_content_str_buffer)

text \<open>A file shorter than the array, without NUL bytes, is printed whole.\<close>

lemma c_str_short_content:
  assumes "0 \<le> rd_fd io" and "length (rd_data io) < SZ_CONTENT" and "NUL \<notin> set (rd_data io)"
  shows "c_str (content_str (set_content_str io i s)) = Some (rd_data io)"
proof -
  let ?pad = "replicate (SZ_CONTENT - length (rd_data io)) NUL"
  have buf: "content_str (set_content_str io i s) = rd_data io @ ?pad"
    using assms by (simp add: set_content_str_buffer)
  have "takeWhile (\<lambda>c. c \<noteq> NUL) (rd_data io @ ?pad) = rd_data io @ takeWhile (\<lambda>c. c \<noteq> NUL) ?pad"
    using assms(3) by (intro takeWhile_append2) auto
  moreover have "takeWhile (\<lambda>c. c \<noteq> NUL) ?pad = []"
    by (simp add: takeWhile_replicate)
  moreover have "NUL \<in> set (rd_data io @ ?pad)"
    using assms(2) by simp
  ultimately show ?thesis
    by (simp add: buf c_str_def)
qed

section \<open>Registration\<close>

lemma register_fd_result:
  "fst (register_fd io i s) =
     (if open_ret io < 0 then Some ERROR_PRESSURE_OPEN
      else if write_ret io < 0 then Some ERROR_PRESSURE_WRITE else None)"
  by (simp add: register_fd_def Let_def)

lemma register_fd_fields [simp]:
  "pressure_file (snd (register_fd io i s)) = pressure_file s"
  "delay_threshold_ms (snd (register_fd io i s)) = delay_threshold_ms s"
  "tracking_window_ms (snd (register_fd io i s)) = tracking_window_ms s"
  "continue_event_loop (snd (register_fd io i s)) = continue_event_loop s"
  by (simp_all add: register_fd_def Let_def)

lemma configured_register_fd [simp]:
  "configured (snd (register_fd io i s)) = configured s"
  by (rule configured_cong) simp_all

lemma distress_event_register_fd [simp]:
  "distress_event j (snd (register_fd io i s)) = distress_event j s"
  by (rule distress_event_cong) simp_all

lemma register_fd_writes:
  "writes_of (out (snd (register_fd io i s))) =
     writes_of (out s) @
       (if open_ret io < 0 then [] else [(open_ret io, distress_event i s @ [NUL])])"
  by (simp add: register_fd_def Let_def distress_event_def)

lemma register_fd_last_write_error:
  "0 \<le> open_ret io \<Longrightarrow> write_ret io < 0 \<Longrightarrow>
   last (out (snd (register_fd io i s))) =
     Stderr (''Error write() pressure file: '' @ pressure_file s i @ [NL])"
  by (simp add: register_fd_def Let_def)

lemma register_fd_fds:
  "0 \<le> open_ret io \<Longrightarrow>
   fds (snd (register_fd io i s)) =
     (fds s)(i := (fds s i)\<lparr>fd := open_ret io, events := POLLPRI\<rparr>)"
  by (simp add: register_fd_def Let_def)

lemma register_loop_Cons:
  "register_loop env (i # rest) s =
     (case fst (register_fd (env i) i s) of
        Some code \<Rightarrow> (Some code, snd (register_fd (env i) i s))
      | None \<Rightarrow> register_loop env rest (snd (register_fd (env i) i s)))"
  by (simp split: prod.splits option.splits)

lemma poll_pressure_events_unfold:
  "poll_pressure_events env s =
     (let r0 = register_fd (env 0) 0 s in
      case fst r0 of Some code \<Rightarrow> (Some code, snd r0)
      | None \<Rightarrow>
        let r1 = register_fd (env 1) 1 (snd r0) in
        case fst r1 of Some code \<Rightarrow> (Some code, snd r1)
        | None \<Rightarrow>
          let r2 = register_fd (env 2) 2 (snd r1) in
          case fst r2 of Some code \<Rightarrow> (Some code, snd r2) | None \<Rightarrow> (None, snd r2))"
  by (simp add: poll_pressure_events_def upt_SZ_IDX register_loop_Cons Let_def
      del: register_loop.simps(2) split: option.splits)

lemma poll_pressure_events_ok:
  assumes "\<forall>i<SZ_IDX. 0 \<le> open_ret (env i) \<and> 0 \<le> write_ret (env i)"
  shows "fst (poll_pressure_events env s) = None"
    and "configured (snd (poll_pressure_events env s)) = configured s"
    and "continue_event_loop (snd (poll_pressure_events env s)) = continue_event_loop s"
    and "registered (snd (poll_pressure_events env s))"
    and "fd (fds (snd (poll_pressure_events env s)) 0) = open_ret (env 0)"
    and "fd (fds (snd (poll_pressure_events env s)) 1) = open_ret (env 1)"
    and "fd (fds (snd (poll_pressure_events env s)) 2) = open_ret (env 2)"
  using assms
  by (simp_all add: all_below_SZ_IDX poll_pressure_events_unfold register_fd_result
      register_fd_fds registered_def Let_def)

text \<open>
  Whatever the environment answers, the descriptor writes of a registration are the
  first few of the three fixed ones, each on the handle just opened for its domain.
\<close>

lemma poll_pressure_events_writes:
  "\<exists>k. writes_of (out (snd (poll_pressure_events env s))) =
         writes_of (out s) @
           take k [(open_ret (env 0), distress_event 0 s @ [NUL]),
                   (open_ret (env 1), distress_event 1 s @ [NUL]),
                   (open_ret (env 2), distress_event 2 s @ [NUL])]
       \<and> ((\<forall>i<SZ_IDX. 0 \<le> open_ret (env i) \<and> 0 \<le> write_ret (env i)) \<longrightarrow> k = 3)"
proof -
  let ?W = "[(open_ret (env 0), distress_event 0 s @ [NUL]),
             (open_ret (env 1), distress_event 1 s @ [NUL]),
             (open_ret (env 2), distress_event 2 s @ [NUL])]"
  let ?ok = "\<forall>i<SZ_IDX. 0 \<le> open_ret (env i) \<and> 0 \<le> write_ret (env i)"
  let ?k = "if open_ret (env 0) < 0 then 0
            else if write_ret (env 0) < 0 \<or> open_ret (env 1) < 0 then 1
            else if write_ret (env 1) < 0 \<or> open_ret (env 2) < 0 then 2 else (3::nat)"
  have "writes_of (out (snd (poll_pressure_events env s))) = writes_of (out s) @ take ?k ?W"
    by (simp add: poll_pressure_events_unfold register_fd_result register_fd_writes Let_def)
  moreover have "?ok \<longrightarrow> ?k = 3"
    by (simp add: all_below_SZ_IDX)
  ultimately show ?thesis by blast
qed

text \<open>
  C1. For each of the three domains, the bytes written to its handle during
  registration are the string \<open>some <threshold_ms * 1000> <window_ms * 1000>\<close> built
  from the fixed constants, with its terminating NUL: \<open>some 50000 500000\<close> for CPU,
  \<open>some 100000 1000000\<close> for IO, \<open>some 75000 750000\<close> for memory. A registration
  that stops early has written the first few of them; one in which every open and
  write succeeds has written all three.
\<close>

theorem C1_descriptor_written:
  assumes "configured s"
  shows "distress_event FD_CPU_IDX s = ''some 50000 500000''
       \<and> distress_event FD_IO_IDX s = ''some 100000 1000000''
       \<and> distress_event FD_MEMORY_IDX s = ''some 75000 750000''
       \<and> (\<exists>k. writes_of (out (snd (poll_pressure_events env s))) =
                 writes_of (out s) @
                   take k [(open_ret (env FD_CPU_IDX), ''some 50000 500000'' @ [NUL]),
                           (open_ret (env FD_IO_IDX), ''some 100000 1000000'' @ [NUL]),
                           (open_ret (env FD_MEMORY_IDX), ''some 75000 750000'' @ [NUL])]
               \<and> ((\<forall>i<SZ_IDX. 0 \<le> open_ret (env i) \<and> 0 \<le> write_ret (env i)) \<longrightarrow> k = 3))"
  using poll_pressure_events_writes [of env s] distress_event_configured [OF assms]
  by (simp add: FD_CPU_IDX_def FD_IO_IDX_def FD_MEMORY_IDX_def)

lemma example_reg_ok: "\<forall>i<SZ_IDX. 0 \<le> open_ret (example_reg i) \<and> 0 \<le> write_ret (example_reg i)"
  by (simp add: all_below_SZ_IDX example_reg_def)

theorem C1_descriptor_written_witness:
  "writes_of (out (snd (poll_pressure_events example_reg (populate_arrays initial_state)))) =
     [(3, ''some 50000 500000'' @ [NUL]), (4, ''some 100000 1000000'' @ [NUL]),
      (5, ''some 75000 750000'' @ [NUL])]"
proof -
  have "out (populate_arrays initial_state) = []"
    by (simp add: populate_arrays_def initial_state_def)
  then show ?thesis
    using C1_descriptor_written [OF configured_populate_arrays, of initial_state example_reg]
      example_reg_ok
    by (auto simp: example_reg_def FD_CPU_IDX_def FD_IO_IDX_def FD_MEMORY_IDX_def)
qed

text \<open>
  C9, as the code has it. Registration exits with \<open>ERROR_PRESSURE_WRITE\<close> (3) exactly
  when the first call to fail is a write that returns a negative value, and the message
  on stderr then names that domain's file. A write that returns a count that is not
  negative, however small, is not a failure: when every open and every write returns
  a value that is not negative, registration completes without exiting.
\<close>

theorem C9_write_error_fatal:
  "(fst (poll_pressure_events env s) = Some ERROR_PRESSURE_WRITE \<longleftrightarrow>
      (\<exists>i<SZ_IDX. (\<forall>j<i. 0 \<le> open_ret (env j) \<and> 0 \<le> write_ret (env j))
                  \<and> 0 \<le> open_ret (env i) \<and> write_ret (env i) < 0))
   \<and> (\<forall>i<SZ_IDX. (\<forall>j<i. 0 \<le> open_ret (env j) \<and> 0 \<le> write_ret (env j))
                  \<and> 0 \<le> open_ret (env i) \<and> write_ret (env i) < 0 \<longrightarrow>
         last (out (snd (poll_pressure_events env s))) =
           Stderr (''Error write() pressure file: '' @ pressure_file s i @ [NL]))
   \<and> ((\<forall>i<SZ_IDX. 0 \<le> open_ret (env i) \<and> 0 \<le> write_ret (env i)) \<longrightarrow>
         fst (poll_pressure_events env s) = None)"
  by (simp add: all_below_SZ_IDX ex_below_SZ_IDX all_below_2 poll_pressure_events_unfold
      register_fd_result register_fd_last_write_error Let_def ERROR_PRESSURE_WRITE_def
      ERROR_PRESSURE_OPEN_def)

theorem C9_write_error_fatal_witness:
  "fst (poll_pressure_events write_error_reg (populate_arrays initial_state)) =
     Some ERROR_PRESSURE_WRITE
   \<and> last (out (snd (poll_pressure_events write_error_reg (populate_arrays initial_state)))) =
       Stderr (''Error write() pressure file: /proc/pressure/io'' @ [NL])"
  using C9_write_error_fatal [of write_error_reg "populate_arrays initial_state"]
  by (simp add: all_below_SZ_IDX ex_below_SZ_IDX all_below_2 write_error_reg_def example_reg_def
      populate_arrays_def)

theorem C9_short_write_counterexample:
  "write_ret (short_write_reg FD_CPU_IDX)
     < int (length (distress_event FD_CPU_IDX (populate_arrays initial_state) @ [NUL]))
   \<and> fst (poll_pressure_events short_write_reg (populate_arrays initial_state)) = None"
proof -
  have "\<forall>i<SZ_IDX. 0 \<le> open_ret (short_write_reg i) \<and> 0 \<le> write_ret (short_write_reg i)"
    by (simp add: all_below_SZ_IDX short_write_reg_def example_reg_def)
  then have "fst (poll_pressure_events short_write_reg (populate_arrays initial_state)) = None"
    by (rule poll_pressure_events_ok(1))
  then show ?thesis
    by (simp add: short_write_reg_def FD_CPU_IDX_def
        distress_event_configured [OF configured_populate_arrays])
qed

section \<open>Shutdown\<close>

lemma close_fd_round_plain:
  "close_fd_round (\<lambda>i s. s) i s =
     s\<lparr>out := out s @
        [Stderr (''Closing file descriptor fds['' @ show_int (int i) @ ''] for ''
                   @ pressure_file s i @ [NL]),
         Sys_usleep (tracking_window_ms s i * MS_TO_US),
         Sys_close (fd (fds s i))]\<rparr>"
  by (simp add: close_fd_round_def emit_def Let_def)

text \<open>The whole trace of one run of the handler.\<close>

lemma sig_handler_plain:
  "sig_handler sig_num s =
     s\<lparr>continue_event_loop := 0,
       out := out s @
        [Stdout ([NL] @ ''Terminating in response to Ctrl+C '' @ [NL]),
         Sys_signal SIGINT, Sys_signal SIGTERM, Store_continue_event_loop 0,
         Stderr (''Please wait until all three file descriptors are closed'' @ [NL]),
         Stderr (''Closing file descriptor fds[0] for '' @ pressure_file s 0 @ [NL]),
         Sys_usleep (tracking_window_ms s 0 * MS_TO_US),
         Sys_close (fd (fds s 0)),
         Stderr (''Closing file descriptor fds[1] for '' @ pressure_file s 1 @ [NL]),
         Sys_usleep (tracking_window_ms s 1 * MS_TO_US),
         Sys_close (fd (fds s 1)),
         Stderr (''Closing file descriptor fds[2] for '' @ pressure_file s 2 @ [NL]),
         Sys_usleep (tracking_window_ms s 2 * MS_TO_US),
         Sys_close (fd (fds s 2)),
         Stderr ([NL] @ ''All file descriptors now closed, exiting now!'' @ [NL]),
         Fflush_stdout]\<rparr>"
  by (simp add: sig_handler_def sig_handler_with_def close_fds_with_def upt_SZ_IDX
      close_fd_round_plain emit_def Let_def show_int_values)

lemma sig_handler_fields [simp]:
  "continue_event_loop (sig_handler sig_num s) = 0"
  "fds (sig_handler sig_num s) = fds s"
  "pressure_file (sig_handler sig_num s) = pressure_file s"
  "delay_threshold_ms (sig_handler sig_num s) = delay_threshold_ms s"
  "tracking_window_ms (sig_handler sig_num s) = tracking_window_ms s"
  by (simp_all add: sig_handler_plain)

lemmas interrupted_unfold =
  sig_handler_interrupted_def sig_handler_with_def close_fds_with_def
  upt_SZ_IDX close_fd_round_def sig_handler_plain emit_def Let_def

lemma sig_handler_interrupted_closes:
  assumes "k < SZ_IDX"
  shows "closes_of (out (sig_handler_interrupted k sig2 sig1 s)) =
           closes_of (out s)
           @ take k [fd (fds s 0), fd (fds s 1), fd (fds s 2)]
           @ [fd (fds s 0), fd (fds s 1), fd (fds s 2)]
           @ drop k [fd (fds s 0), fd (fds s 1), fd (fds s 2)]"
  using assms unfolding below_SZ_IDX by (elim disjE; simp add: interrupted_unfold)

lemma sig_handler_interrupted_opens:
  assumes "k < SZ_IDX"
  shows "opens_of (out (sig_handler_interrupted k sig2 sig1 s)) = opens_of (out s)"
  using assms unfolding below_SZ_IDX by (elim disjE; simp add: interrupted_unfold)

lemma sig_handler_interrupted_fds:
  assumes "k < SZ_IDX"
  shows "fds (sig_handler_interrupted k sig2 sig1 s) = fds s"
  using assms unfolding below_SZ_IDX by (elim disjE; simp add: interrupted_unfold)

lemma sig_handler_interrupted_flag:
  assumes "k < SZ_IDX"
  shows "continue_event_loop (sig_handler_interrupted k sig2 sig1 s) = 0"
  using assms unfolding below_SZ_IDX by (elim disjE; simp add: interrupted_unfold)

lemma sig_handler_twice_closes:
  "closes_of (out (sig_handler sig2 (sig_handler sig1 s))) =
     closes_of (out s) @ [fd (fds s 0), fd (fds s 1), fd (fds s 2)]
       @ [fd (fds s 0), fd (fds s 1), fd (fds s 2)]"
  by (simp add: sig_handler_plain)

lemma verify_proc_pressure_fields [simp]:
  "fds (snd (verify_proc_pressure sret now s)) = fds s"
  "pressure_file (snd (verify_proc_pressure sret now s)) = pressure_file s"
  "delay_threshold_ms (snd (verify_proc_pressure sret now s)) = delay_threshold_ms s"
  "tracking_window_ms (snd (verify_proc_pressure sret now s)) = tracking_window_ms s"
  "continue_event_loop (snd (verify_proc_pressure sret now s)) = continue_event_loop s"
  by (simp_all add: verify_proc_pressure_def Let_def set_time_str_def)

lemma verify_proc_pressure_result:
  "fst (verify_proc_pressure sret now s) =
     (if sret = - 1 then Some ERROR_KERNEL_UNSUPPORTED else None)"
  by (simp add: verify_proc_pressure_def Let_def)

lemma poll_pressure_events_None_iff:
  "fst (poll_pressure_events env s) = None \<longleftrightarrow>
     (\<forall>i<SZ_IDX. 0 \<le> open_ret (env i) \<and> 0 \<le> write_ret (env i))"
  by (auto simp: all_below_SZ_IDX poll_pressure_events_unfold register_fd_result Let_def
      split: option.splits if_splits)

lemma poll_pressure_events_code:
  "fst (poll_pressure_events env s) = Some code \<Longrightarrow>
   code = ERROR_PRESSURE_OPEN \<or> code = ERROR_PRESSURE_WRITE"
  by (auto simp: poll_pressure_events_unfold register_fd_result Let_def
      split: option.splits if_splits)

text \<open>The state with which a run that got through startup enters the event loop.\<close>

lemma loop_entry_facts:
  assumes "startup_ok env"
  shows "configured (loop_entry env)"
    and "registered (loop_entry env)"
    and "continue_event_loop (loop_entry env) = 1"
    and "fd (fds (loop_entry env) 0) = open_ret (reg env 0)"
    and "fd (fds (loop_entry env) (Suc 0)) = open_ret (reg env 1)"
    and "fd (fds (loop_entry env) 2) = open_ret (reg env 2)"
proof -
  let ?s = "snd (verify_proc_pressure (stat_ret env) (start_time env)
                   (populate_arrays initial_state))"
  from assms have "\<forall>i<SZ_IDX. 0 \<le> open_ret (reg env i) \<and> 0 \<le> write_ret (reg env i)"
    by (simp add: startup_ok_def poll_pressure_events_None_iff)
  note ok = poll_pressure_events_ok [OF this, of ?s]
  have "configured ?s"
    using configured_populate_arrays [of initial_state]
    by (simp add: configured_cong [of ?s "populate_arrays initial_state"])
  then show "configured (loop_entry env)"
    using ok(2) by (simp add: loop_entry_def configured_def)
  show "registered (loop_entry env)"
    using ok(4) by (simp add: loop_entry_def registered_def)
  have "continue_event_loop (populate_arrays initial_state) = 1"
    by (simp add: populate_arrays_def initial_state_def)
  then show "continue_event_loop (loop_entry env) = 1"
    by (simp add: loop_entry_def ok(3))
  show "fd (fds (loop_entry env) 0) = open_ret (reg env 0)"
    by (simp add: loop_entry_def ok(5))
  show "fd (fds (loop_entry env) (Suc 0)) = open_ret (reg env 1)"
    using ok(6) by (simp add: loop_entry_def)
  show "fd (fds (loop_entry env) 2) = open_ret (reg env 2)"
    by (simp add: loop_entry_def ok(7))
qed

lemma register_fd_reports [simp]:
  "report_paths (out (snd (register_fd io i s))) = report_paths (out s)"
  "counts_of p (out (snd (register_fd io i s))) = counts_of p (out s)"
  by (simp_all add: register_fd_def Let_def)

lemma poll_pressure_events_reports [simp]:
  "report_paths (out (snd (poll_pressure_events env s))) = report_paths (out s)"
  "counts_of p (out (snd (poll_pressure_events env s))) = counts_of p (out s)"
  by (simp_all add: poll_pressure_events_unfold Let_def split: option.splits)

lemma verify_proc_pressure_reports [simp]:
  "report_paths (out (snd (verify_proc_pressure sret now s))) = report_paths (out s)"
  "counts_of p (out (snd (verify_proc_pressure sret now s))) = counts_of p (out s)"
  by (simp_all add: verify_proc_pressure_def Let_def set_time_str_def)

lemma loop_entry_reports:
  "report_paths (out (loop_entry env)) = []"
  "counts_of p (out (loop_entry env)) = []"
proof -
  have init: "out (populate_arrays initial_state) = []"
    by (simp add: populate_arrays_def initial_state_def)
  show "report_paths (out (loop_entry env)) = []"
    by (simp add: loop_entry_def init)
  show "counts_of p (out (loop_entry env)) = []"
    by (simp add: loop_entry_def init)
qed

lemma startup_ok_example: "startup_ok (example_env ws)"
  using example_reg_ok
  by (simp add: startup_ok_def example_env_def poll_pressure_events_None_iff)

lemma example_registered_facts:
  "configured example_registered"
  "registered example_registered"
  "continue_event_loop example_registered = 1"
  "fd (fds example_registered 0) = 3"
  "fd (fds example_registered (Suc 0)) = 4"
  "fd (fds example_registered 2) = 5"
  using loop_entry_facts [OF startup_ok_example, of "[]"]
  by (simp_all add: example_registered_def) (simp_all add: example_env_def example_reg_def)

lemma example_registered_reports:
  "report_paths (out example_registered) = []"
  "counts_of p (out example_registered) = []"
  by (simp_all add: example_registered_def loop_entry_reports)

lemma example_registered_paths:
  "pressure_file example_registered 0 = ''/proc/pressure/cpu''"
  "pressure_file example_registered (Suc 0) = ''/proc/pressure/io''"
  "pressure_file example_registered 2 = ''/proc/pressure/memory''"
  using example_registered_facts(1) by (simp_all add: configured_def)

text \<open>
  C4. On a termination request the handler first stores 0 in the run flag, then for
  CPU, IO and MEMORY in this order sleeps for that domain's tracking window (500000,
  1000000 and 750000 microseconds) and closes its handle. Nothing else in the handler
  sleeps, closes or touches the flag.
\<close>

theorem C4_drain_order:
  assumes "configured s"
  shows "drain_steps (out (sig_handler sig_num s)) =
           drain_steps (out s) @
           [Store_continue_event_loop 0,
            Sys_usleep 500000, Sys_close (fd (fds s FD_CPU_IDX)),
            Sys_usleep 1000000, Sys_close (fd (fds s FD_IO_IDX)),
            Sys_usleep 750000, Sys_close (fd (fds s FD_MEMORY_IDX))]
         \<and> continue_event_loop (sig_handler sig_num s) = 0"
  using assms
  by (simp add: sig_handler_plain configured_def MS_TO_US_def FD_CPU_IDX_def FD_IO_IDX_def
      FD_MEMORY_IDX_def)

theorem C4_drain_order_witness:
  "drain_steps (out (sig_handler SIGINT example_registered)) =
     drain_steps (out example_registered) @
       [Store_continue_event_loop 0, Sys_usleep 500000, Sys_close 3,
        Sys_usleep 1000000, Sys_close 4, Sys_usleep 750000, Sys_close 5]"
  using C4_drain_order [OF example_registered_facts(1), of SIGINT]
  by (simp add: example_registered_facts FD_CPU_IDX_def FD_IO_IDX_def FD_MEMORY_IDX_def)

text \<open>
  C3, as the code has it. The handler has no guard against running twice and installs
  itself again each time it runs. A second signal delivered while the drain sleeps in
  round \<open>k\<close> runs the whole handler again: no handle is opened, the handles keep
  their descriptor numbers and the run flag stays 0, but the drain starts over from
  CPU, so that close is called twice on each of the three descriptors. The same holds
  when the second handler runs only after the first has returned.
\<close>

theorem C3_second_signal_repeats_drain:
  assumes "k < SZ_IDX"
  shows "closes_of (out (sig_handler_interrupted k sig2 sig1 s)) =
           closes_of (out s)
           @ take k [fd (fds s FD_CPU_IDX), fd (fds s FD_IO_IDX), fd (fds s FD_MEMORY_IDX)]
           @ [fd (fds s FD_CPU_IDX), fd (fds s FD_IO_IDX), fd (fds s FD_MEMORY_IDX)]
           @ drop k [fd (fds s FD_CPU_IDX), fd (fds s FD_IO_IDX), fd (fds s FD_MEMORY_IDX)]
       \<and> opens_of (out (sig_handler_interrupted k sig2 sig1 s)) = opens_of (out s)
       \<and> fds (sig_handler_interrupted k sig2 sig1 s) = fds s
       \<and> continue_event_loop (sig_handler_interrupted k sig2 sig1 s) = 0
       \<and> closes_of (out (sig_handler sig2 (sig_handler sig1 s))) =
           closes_of (out s)
           @ [fd (fds s FD_CPU_IDX), fd (fds s FD_IO_IDX), fd (fds s FD_MEMORY_IDX)]
           @ [fd (fds s FD_CPU_IDX), fd (fds s FD_IO_IDX), fd (fds s FD_MEMORY_IDX)]"
  using sig_handler_interrupted_closes [OF assms, of sig2 sig1 s]
    sig_handler_interrupted_opens [OF assms, of sig2 sig1 s]
    sig_handler_interrupted_fds [OF assms, of sig2 sig1 s]
    sig_handler_interrupted_flag [OF assms, of sig2 sig1 s]
    sig_handler_twice_closes [of sig2 sig1 s]
  by (simp add: FD_CPU_IDX_def FD_IO_IDX_def FD_MEMORY_IDX_def)

theorem C3_second_signal_repeats_drain_witness:
  "closes_of (out (sig_handler_interrupted 1 SIGTERM SIGINT example_registered)) =
     closes_of (out example_registered) @ [3, 3, 4, 5, 4, 5]"
proof -
  have "(1::nat) < SZ_IDX" by (simp add: SZ_IDX_def)
  from C3_second_signal_repeats_drain [OF this, of SIGTERM SIGINT example_registered]
  show ?thesis
    by (simp add: example_registered_facts FD_CPU_IDX_def FD_IO_IDX_def FD_MEMORY_IDX_def)
qed

theorem C3_double_close_counterexample:
  "closes_of (out (sig_handler_interrupted 0 SIGTERM SIGINT example_registered)) =
     closes_of (out example_registered) @ [3, 4, 5, 3, 4, 5]"
proof -
  have "(0::nat) < SZ_IDX" by (simp add: SZ_IDX_def)
  from sig_handler_interrupted_closes [OF this, of SIGTERM SIGINT example_registered]
  show ?thesis
    by (simp add: example_registered_facts)
qed

section \<open>The event loop\<close>

lemma poll_fields [simp]:
  "pressure_file (poll w s) = pressure_file s"
  "delay_threshold_ms (poll w s) = delay_threshold_ms s"
  "tracking_window_ms (poll w s) = tracking_window_ms s"
  "events (fds (poll w s) i) = events (fds s i)"
  "fd (fds (poll w s) i) = fd (fds s i)"
  by (simp_all add: poll_def Let_def split: option.splits)

lemma poll_revents [simp]:
  "i < SZ_IDX \<Longrightarrow> revents (fds (poll w s) i) = poll_revents w i"
  by (simp add: poll_def Let_def)

lemma poll_no_signal [simp]:
  "sig_in_poll w = None \<Longrightarrow> out (poll w s) = out s"
  "sig_in_poll w = None \<Longrightarrow> continue_event_loop (poll w s) = continue_event_loop s"
  by (simp_all add: poll_def)

lemma poll_signal [simp]:
  "sig_in_poll w = Some sig_num \<Longrightarrow> continue_event_loop (poll w s) = 0"
  by (simp add: poll_def Let_def)

lemma configured_poll [simp]: "configured (poll w s) = configured s"
  by (rule configured_cong) simp_all

lemma registered_poll [simp]: "registered (poll w s) = registered s"
  by (simp add: registered_def)

text \<open>The three ways through the body of the for loop.\<close>

lemma handle_fd_skip:
  "revents (fds s i) = 0 \<or> continue_event_loop s = 0 \<Longrightarrow> handle_fd w i ec s = (None, ec, s)"
  by (simp add: handle_fd_def)

lemma handle_fd_gone:
  "revents (fds s i) AND POLLERR \<noteq> 0 \<Longrightarrow> continue_event_loop s \<noteq> 0 \<Longrightarrow>
   handle_fd w i ec s =
     (Some ERROR_PRESSURE_FILE_GONE, ec,
      emit (Stderr ([NL] @ ''Error: poll() event source is gone.'' @ [NL])) s)"
  by (auto simp: handle_fd_def)


lemma handle_fd_unknown:
  "revents (fds s i) \<noteq> 0 \<Longrightarrow> continue_event_loop s \<noteq> 0 \<Longrightarrow>
   revents (fds s i) AND POLLERR = 0 \<Longrightarrow> events (fds s i) = 0 \<Longrightarrow>
   fst (handle_fd w i ec s) = Some ERROR_PRESSURE_EVENT_UNK"
  by (simp add: handle_fd_def)

lemma handle_fd_fields [simp]:
  "fds (snd (snd (handle_fd w i ec s))) = fds s"
  "pressure_file (snd (snd (handle_fd w i ec s))) = pressure_file s"
  "delay_threshold_ms (snd (snd (handle_fd w i ec s))) = delay_threshold_ms s"
  "tracking_window_ms (snd (snd (handle_fd w i ec s))) = tracking_window_ms s"
  "continue_event_loop (snd (snd (handle_fd w i ec s))) = continue_event_loop s"
  by (simp_all add: handle_fd_def Let_def set_time_str_def)

lemma handle_fds_Cons:
  "handle_fds w (i # rest) ec s =
     (case fst (handle_fd w i ec s) of
        Some code \<Rightarrow> handle_fd w i ec s
      | None \<Rightarrow> handle_fds w rest (fst (snd (handle_fd w i ec s))) (snd (snd (handle_fd w i ec s))))"
  by (simp split: prod.splits option.splits)

lemma handle_fds_fields [simp]:
  "fds (snd (snd (handle_fds w is ec s))) = fds s"
  "pressure_file (snd (snd (handle_fds w is ec s))) = pressure_file s"
  "delay_threshold_ms (snd (snd (handle_fds w is ec s))) = delay_threshold_ms s"
  "tracking_window_ms (snd (snd (handle_fds w is ec s))) = tracking_window_ms s"
  "continue_event_loop (snd (snd (handle_fds w is ec s))) = continue_event_loop s"
  by (induction "is" arbitrary: ec s; simp add: handle_fds_Cons del: handle_fds.simps(2)
      split: option.splits)+

text \<open>
  The domains that the for loop reports in one wake, from the handles as the wait left
  them: those with a nonzero \<^verbatim>\<open>revents\<close>, in index order, up to the first that makes
  the loop exit.
\<close>

lemma handle_fds_reports:
  "continue_event_loop s \<noteq> 0 \<Longrightarrow>
   report_paths (out (snd (snd (handle_fds w is ec s)))) =
     report_paths (out s) @
       map (pressure_file s)
         (takeWhile (\<lambda>i. revents (fds s i) AND POLLERR = 0 \<and> events (fds s i) \<noteq> 0)
            (filter (\<lambda>i. revents (fds s i) \<noteq> 0) is))"
  by (induction "is" arbitrary: ec s) (simp_all add: handle_fd_def Let_def set_time_str_def)

lemma handle_fds_exit:
  "continue_event_loop s \<noteq> 0 \<Longrightarrow> \<forall>i\<in>set is. events (fds s i) \<noteq> 0 \<Longrightarrow>
   fst (handle_fds w is ec s) =
     (if \<exists>i\<in>set is. revents (fds s i) AND POLLERR \<noteq> 0 then Some ERROR_PRESSURE_FILE_GONE
      else None)"
  by (induction "is" arbitrary: ec s) (auto simp: handle_fd_def Let_def set_time_str_def)


lemma handle_fds_code:
  "fst (handle_fds w is ec s) = Some code \<Longrightarrow>
   code = ERROR_PRESSURE_FILE_GONE \<or> code = ERROR_PRESSURE_EVENT_UNK"
  by (induction "is" arbitrary: ec s)
     (auto simp: handle_fd_def Let_def set_time_str_def split: if_splits)









text \<open>The while loop, branch by branch.\<close>

lemma event_loop_stopped:
  "continue_event_loop s \<noteq> 1 \<Longrightarrow> event_loop ws ec s = (Returned, ec, s)"
  by (cases ws) simp_all

lemma event_loop_signal:
  "continue_event_loop s = 1 \<Longrightarrow> sig_in_poll w = Some sig_num \<Longrightarrow>
   event_loop (w # ws) ec s = (Returned, ec, poll w s)"
  by (simp add: Let_def)

lemma event_loop_poll_error:
  "continue_event_loop s = 1 \<Longrightarrow> sig_in_poll w = None \<Longrightarrow> poll_ret w < 0 \<Longrightarrow>
   event_loop (w # ws) ec s =
     (Exited ERROR_PRESSURE_POLL_FDS, ec,
      emit (Stderr ([NL] @ ''Error using poll() function'' @ [NL])) (poll w s))"
  by (simp add: Let_def)

lemma event_loop_wake:
  "continue_event_loop s = 1 \<Longrightarrow> sig_in_poll w = None \<Longrightarrow> 0 \<le> poll_ret w \<Longrightarrow>
   event_loop (w # ws) ec s =
     (case fst (handle_fds w [0..<SZ_IDX] ec (poll w s)) of
        Some code \<Rightarrow> (Exited code, snd (handle_fds w [0..<SZ_IDX] ec (poll w s)))
      | None \<Rightarrow> event_loop ws (fst (snd (handle_fds w [0..<SZ_IDX] ec (poll w s))))
                  (snd (snd (handle_fds w [0..<SZ_IDX] ec (poll w s)))))"
  by (simp add: Let_def split: prod.splits option.splits)

lemma event_loop_cases:
  obtains (stopped) "continue_event_loop s \<noteq> 1"
  | (signal) sig_num where "continue_event_loop s = 1" "sig_in_poll w = Some sig_num"
  | (poll_error) "continue_event_loop s = 1" "sig_in_poll w = None" "poll_ret w < 0"
  | (exit) code where "continue_event_loop s = 1" "sig_in_poll w = None" "0 \<le> poll_ret w"
      "fst (handle_fds w [0..<SZ_IDX] ec (poll w s)) = Some code"
  | (next_wake) "continue_event_loop s = 1" "sig_in_poll w = None" "0 \<le> poll_ret w"
      "fst (handle_fds w [0..<SZ_IDX] ec (poll w s)) = None"
  by (cases "sig_in_poll w"; cases "fst (handle_fds w [0..<SZ_IDX] ec (poll w s))") force+

declare event_loop.simps(2) [simp del]

lemma event_loop_blocked_flag:
  "fst (event_loop ws ec s) = Blocked \<Longrightarrow>
   continue_event_loop (snd (snd (event_loop ws ec s))) = 1"
proof (induction ws arbitrary: ec s)
  case Nil
  then show ?case by (simp split: if_splits)
next
  case (Cons w ws)
  show ?case
  proof (cases rule: event_loop_cases [where s = s and w = w and ec = ec])
    case next_wake
    with Cons show ?thesis by (simp add: event_loop_wake)
  qed (use Cons.prems in \<open>simp_all add: event_loop_stopped event_loop_signal
        event_loop_poll_error event_loop_wake\<close>)
qed

text \<open>
  A run that is still waiting after the wakes \<open>ws\<close> goes on with the next wakes from
  the counters and the globals it has reached.
\<close>

lemma event_loop_append:
  "fst (event_loop ws ec s) = Blocked \<Longrightarrow>
   event_loop (ws @ ws2) ec s =
     event_loop ws2 (fst (snd (event_loop ws ec s))) (snd (snd (event_loop ws ec s)))"
proof (induction ws arbitrary: ec s)
  case Nil
  then show ?case by simp
next
  case (Cons w ws)
  show ?case
  proof (cases rule: event_loop_cases [where s = s and w = w and ec = ec])
    case next_wake
    with Cons show ?thesis by (simp add: event_loop_wake)
  qed (use Cons.prems in \<open>simp_all add: event_loop_stopped event_loop_signal
        event_loop_poll_error event_loop_wake\<close>)
qed

lemma poll_reports [simp]:
  "counts_of p (out (poll w s)) = counts_of p (out s)"
  "report_paths (out (poll w s)) = report_paths (out s)"
  by (simp_all add: poll_def Let_def sig_handler_plain split: option.splits)

lemma event_loop_frame:
  "pressure_file (snd (snd (event_loop ws ec s))) = pressure_file s
   \<and> delay_threshold_ms (snd (snd (event_loop ws ec s))) = delay_threshold_ms s
   \<and> tracking_window_ms (snd (snd (event_loop ws ec s))) = tracking_window_ms s
   \<and> (\<forall>i. events (fds (snd (snd (event_loop ws ec s))) i) = events (fds s i)
          \<and> fd (fds (snd (snd (event_loop ws ec s))) i) = fd (fds s i))"
proof (induction ws arbitrary: ec s)
  case Nil
  show ?case by simp
next
  case (Cons w ws)
  show ?case
  proof (cases rule: event_loop_cases [where s = s and w = w and ec = ec])
    case next_wake
    then show ?thesis
      using Cons.IH [of "fst (snd (handle_fds w [0..<SZ_IDX] ec (poll w s)))"
          "snd (snd (handle_fds w [0..<SZ_IDX] ec (poll w s)))"]
      by (simp add: event_loop_wake)
  qed (simp_all add: event_loop_stopped event_loop_signal event_loop_poll_error event_loop_wake)
qed

lemma configured_event_loop [simp]:
  "configured (snd (snd (event_loop ws ec s))) = configured s"
  by (rule configured_cong) (simp_all add: event_loop_frame)

lemma registered_event_loop [simp]:
  "registered (snd (snd (event_loop ws ec s))) = registered s"
  by (simp add: registered_def event_loop_frame)


lemma configured_emit [simp]: "configured (emit e s) = configured s"
  by (simp add: configured_def)

lemma registered_emit [simp]: "registered (emit e s) = registered s"
  by (simp add: registered_def)

lemma event_loop_single:
  "continue_event_loop s = 1 \<Longrightarrow> sig_in_poll w = None \<Longrightarrow> 0 \<le> poll_ret w \<Longrightarrow>
   snd (event_loop [w] ec s) = snd (handle_fds w [0..<SZ_IDX] ec (poll w s))"
  by (simp add: event_loop_wake split: option.splits)

lemma reach_poll:
  assumes "registered s"
  shows "takeWhile (\<lambda>i. revents (fds (poll w s) i) AND POLLERR = 0 \<and> events (fds s i) \<noteq> 0)
           (filter (\<lambda>i. revents (fds (poll w s) i) \<noteq> 0) [0..<SZ_IDX])
         = takeWhile (\<lambda>i. poll_revents w i AND POLLERR = 0)
             (filter (\<lambda>i. poll_revents w i \<noteq> 0) [0..<SZ_IDX])"
proof -
  have ev: "\<And>i. i \<in> set [0..<SZ_IDX] \<Longrightarrow> events (fds s i) \<noteq> 0"
    using assms by (auto simp: registered_def below_SZ_IDX POLLPRI_def)
  have rv: "\<And>i. i \<in> set [0..<SZ_IDX] \<Longrightarrow> revents (fds (poll w s) i) = poll_revents w i"
    by simp
  have "filter (\<lambda>i. revents (fds (poll w s) i) \<noteq> 0) [0..<SZ_IDX]
        = filter (\<lambda>i. poll_revents w i \<noteq> 0) [0..<SZ_IDX]"
    by (rule filter_cong [OF refl]) (simp add: rv)
  moreover have "takeWhile (\<lambda>i. revents (fds (poll w s) i) AND POLLERR = 0 \<and> events (fds s i) \<noteq> 0)
                   (filter (\<lambda>i. poll_revents w i \<noteq> 0) [0..<SZ_IDX])
                 = takeWhile (\<lambda>i. poll_revents w i AND POLLERR = 0)
                     (filter (\<lambda>i. poll_revents w i \<noteq> 0) [0..<SZ_IDX])"
    by (rule takeWhile_cong [OF refl]) (use ev rv in auto)
  ultimately show ?thesis by simp
qed

lemma registered_events:
  "registered s \<Longrightarrow> \<forall>i\<in>set [0..<SZ_IDX]. events (fds (poll w s) i) \<noteq> 0"
  by (auto simp: registered_def below_SZ_IDX POLLPRI_def)

lemma subseq_takeWhile_filter: "subseq (takeWhile P (filter Q xs)) xs"
proof -
  have "subseq (takeWhile P (filter Q xs)) (filter Q xs)"
    by (intro prefix_imp_subseq takeWhile_is_prefix)
  also have "subseq (filter Q xs) xs"
    by simp
  finally show ?thesis .
qed


text \<open>After registration the exit for an unrecognized event cannot be reached.\<close>

lemma unrecognized_exit_unreachable:
  "registered s \<Longrightarrow> fst (event_loop ws ec s) \<noteq> Exited ERROR_PRESSURE_EVENT_UNK"
proof (induction ws arbitrary: ec s)
  case Nil
  show ?case by simp
next
  case (Cons w ws)
  show ?case
  proof (cases rule: event_loop_cases [where s = s and w = w and ec = ec])
    case (exit code)
    then have run: "continue_event_loop (poll w s) \<noteq> 0" by simp
    from handle_fds_exit [OF run registered_events [OF Cons.prems], of w ec] exit
    have "code = ERROR_PRESSURE_FILE_GONE" by (simp split: if_splits)
    with exit show ?thesis
      by (simp add: event_loop_wake ERROR_PRESSURE_FILE_GONE_def ERROR_PRESSURE_EVENT_UNK_def)
  next
    case next_wake
    have "registered (snd (snd (handle_fds w [0..<SZ_IDX] ec (poll w s))))"
      using Cons.prems by (simp add: registered_def)
    from Cons.IH [OF this] next_wake show ?thesis
      by (simp add: event_loop_wake)
  qed (simp_all add: event_loop_stopped event_loop_signal event_loop_poll_error
        ERROR_PRESSURE_POLL_FDS_def ERROR_PRESSURE_EVENT_UNK_def)
qed

text \<open>Wakes without signal, wait failure or POLLERR leave the process waiting.\<close>

lemma event_loop_blocked:
  assumes "registered s" and "continue_event_loop s = 1"
    and "\<forall>w\<in>set ws. sig_in_poll w = None \<and> 0 \<le> poll_ret w
                     \<and> (\<forall>i<SZ_IDX. poll_revents w i AND POLLERR = 0)"
  shows "fst (event_loop ws ec s) = Blocked"
  using assms
proof (induction ws arbitrary: ec s)
  case Nil
  then show ?case by simp
next
  case (Cons w ws)
  let ?r = "handle_fds w [0..<SZ_IDX] ec (poll w s)"
  from Cons.prems have w: "sig_in_poll w = None" "0 \<le> poll_ret w"
    and clean: "\<forall>i<SZ_IDX. poll_revents w i AND POLLERR = 0"
    by simp_all
  have run: "continue_event_loop (poll w s) \<noteq> 0"
    using Cons.prems w by simp
  have "\<not> (\<exists>i\<in>set [0..<SZ_IDX]. revents (fds (poll w s) i) AND POLLERR \<noteq> 0)"
    using clean by simp
  with handle_fds_exit [OF run registered_events [OF Cons.prems(1)], of w ec]
  have none: "fst ?r = None" by simp
  have "registered (snd (snd ?r))" "continue_event_loop (snd (snd ?r)) = 1"
    using Cons.prems w by (simp_all add: registered_def)
  from Cons.IH [OF this, of "fst (snd ?r)"] Cons.prems w none show ?case
    by (simp add: event_loop_wake)
qed

text \<open>The loop exits with the code for a failed wait only where a wait fails.\<close>

lemma event_loop_poll_exit:
  "fst (event_loop ws ec s) = Exited ERROR_PRESSURE_POLL_FDS \<Longrightarrow>
   \<exists>ws1 w ws2. ws = ws1 @ w # ws2 \<and> fst (event_loop ws1 ec s) = Blocked
                \<and> sig_in_poll w = None \<and> poll_ret w < 0"
proof (induction ws arbitrary: ec s)
  case Nil
  then show ?case by (simp split: if_splits)
next
  case (Cons w ws)
  let ?r = "handle_fds w [0..<SZ_IDX] ec (poll w s)"
  show ?case
  proof (cases rule: event_loop_cases [where s = s and w = w and ec = ec])
    case stopped
    with Cons.prems show ?thesis by (simp add: event_loop_stopped)
  next
    case (signal sig_num)
    with Cons.prems show ?thesis by (simp add: event_loop_signal)
  next
    case poll_error
    then have "w # ws = [] @ w # ws \<and> fst (event_loop [] ec s) = Blocked
               \<and> sig_in_poll w = None \<and> poll_ret w < 0"
      by simp
    then show ?thesis by blast
  next
    case (exit code)
    from handle_fds_code [OF exit(4)] exit Cons.prems show ?thesis
      by (auto simp: event_loop_wake ERROR_PRESSURE_POLL_FDS_def ERROR_PRESSURE_FILE_GONE_def
          ERROR_PRESSURE_EVENT_UNK_def)
  next
    case next_wake
    then have step: "\<And>ws'. event_loop (w # ws') ec s = event_loop ws' (fst (snd ?r)) (snd (snd ?r))"
      by (simp add: event_loop_wake)
    from Cons.prems have "fst (event_loop ws (fst (snd ?r)) (snd (snd ?r))) = Exited ERROR_PRESSURE_POLL_FDS"
      by (simp add: step)
    from Cons.IH [OF this] obtain ws1 w' ws2 where
      "ws = ws1 @ w' # ws2" "fst (event_loop ws1 (fst (snd ?r)) (snd (snd ?r))) = Blocked"
      "sig_in_poll w' = None" "poll_ret w' < 0"
      by blast
    then have "w # ws = (w # ws1) @ w' # ws2 \<and> fst (event_loop (w # ws1) ec s) = Blocked
               \<and> sig_in_poll w' = None \<and> poll_ret w' < 0"
      by (simp add: step)
    then show ?thesis by blast
  qed
qed

section \<open>The whole run\<close>

lemma startup_ok_wakes [simp]: "startup_ok (env\<lparr>wakes := ws\<rparr>) = startup_ok env"
  by (simp add: startup_ok_def)

lemma loop_entry_wakes [simp]: "loop_entry (env\<lparr>wakes := ws\<rparr>) = loop_entry env"
  by (simp add: loop_entry_def)

lemma main_unfold:
  "main env =
     (let v = verify_proc_pressure (stat_ret env) (start_time env) (populate_arrays initial_state)
      in case fst v of
           Some code \<Rightarrow> (Exited code, snd v)
         | None \<Rightarrow>
             (let r = poll_pressure_events (reg env) (snd v)
              in case fst r of
                   Some code \<Rightarrow> (Exited code, snd r)
                 | None \<Rightarrow>
                     (let l = pressure_event_loop (wakes env)
                                (emit (Sys_signal SIGINT) (emit (Sys_signal SIGTERM) (snd r)))
                      in (case fst l of Returned \<Rightarrow> Exited 0 | x \<Rightarrow> x, snd l))))"
  by (simp add: main_def Let_def split: prod.splits option.splits outcome.splits)

lemma pressure_event_loop_parts:
  "fst (pressure_event_loop ws s) =
     fst (event_loop ws (\<lambda>i. 1) (emit (Stdout ([NL] @ ''Polling for events...'' @ [NL])) s))"
  "snd (pressure_event_loop ws s) =
     snd (snd (event_loop ws (\<lambda>i. 1) (emit (Stdout ([NL] @ ''Polling for events...'' @ [NL])) s)))"
  by (simp_all add: pressure_event_loop_def split: prod.splits)

lemma main_not_started:
  assumes "\<not> startup_ok env"
  shows "fst (main env) = Exited ERROR_KERNEL_UNSUPPORTED
       \<or> fst (main env) = Exited ERROR_PRESSURE_OPEN
       \<or> fst (main env) = Exited ERROR_PRESSURE_WRITE"
proof (cases "stat_ret env = - 1")
  case True
  then show ?thesis by (simp add: main_unfold Let_def verify_proc_pressure_result)
next
  case False
  let ?r = "poll_pressure_events (reg env)
              (snd (verify_proc_pressure (stat_ret env) (start_time env)
                      (populate_arrays initial_state)))"
  from assms False obtain code where code: "fst ?r = Some code"
    by (auto simp: startup_ok_def)
  from poll_pressure_events_code [OF this] code False show ?thesis
    by (auto simp: main_unfold Let_def verify_proc_pressure_result)
qed

text \<open>
  The outcome of \<^verbatim>\<open>main\<close> in terms of the loop: a run that is still waiting, or that
  exits with a code of the loop, has entered the loop.
\<close>

lemma main_outcome:
  assumes "startup_ok env"
  shows "fst (main env) =
           (case fst (event_loop (wakes env) (\<lambda>i. 1)
                        (emit (Stdout ([NL] @ ''Polling for events...'' @ [NL])) (loop_entry env))) of
              Returned \<Rightarrow> Exited 0 | r \<Rightarrow> r)"
    and "snd (main env) =
           snd (snd (event_loop (wakes env) (\<lambda>i. 1)
                       (emit (Stdout ([NL] @ ''Polling for events...'' @ [NL])) (loop_entry env))))"
  using assms
  by (simp_all add: main_unfold startup_ok_def loop_entry_def Let_def pressure_event_loop_parts
      verify_proc_pressure_result)

lemma main_blocked:
  "fst (main env) = Blocked \<longleftrightarrow>
     startup_ok env
     \<and> fst (event_loop (wakes env) (\<lambda>i. 1)
              (emit (Stdout ([NL] @ ''Polling for events...'' @ [NL])) (loop_entry env))) = Blocked"
proof (cases "startup_ok env")
  case True
  then show ?thesis
    by (simp add: main_outcome split: outcome.splits)
next
  case False
  with main_not_started [OF False] show ?thesis by auto
qed

text \<open>
  C5. A termination signal delivered while the process waits in poll always ends the
  run with exit status 0, whatever poll returns: the handler has cleared the run flag,
  and the loop tests the flag before it looks at the return value. The exit with
  \<open>ERROR_PRESSURE_POLL_FDS\<close> (4) happens exactly when a wait returns a negative value
  and no signal was delivered during it, so that the run flag is still set.
\<close>

theorem C5_termination_exits_cleanly:
  "(fst (main (env\<lparr>wakes := ws\<rparr>)) = Blocked \<and> sig_in_poll w \<noteq> None \<longrightarrow>
      fst (main (env\<lparr>wakes := ws @ w # ws'\<rparr>)) = Exited 0)
   \<and> (fst (main env) = Exited ERROR_PRESSURE_POLL_FDS \<longleftrightarrow>
        (\<exists>ws1 w ws2. wakes env = ws1 @ w # ws2 \<and> fst (main (env\<lparr>wakes := ws1\<rparr>)) = Blocked
                      \<and> sig_in_poll w = None \<and> poll_ret w < 0))"
proof -
  define s0 where "s0 = emit (Stdout ([NL] @ ''Polling for events...'' @ [NL])) (loop_entry env)"
  define ec0 where "ec0 = (\<lambda>i::nat. 1 :: 32 word)"
  have mb: "fst (main (env\<lparr>wakes := ws\<rparr>)) = Blocked \<longleftrightarrow>
              startup_ok env \<and> fst (event_loop ws ec0 s0) = Blocked" for ws
    unfolding s0_def ec0_def by (simp add: main_blocked)
  have mo: "fst (main (env\<lparr>wakes := ws\<rparr>)) =
              (case fst (event_loop ws ec0 s0) of Returned \<Rightarrow> Exited 0 | r \<Rightarrow> r)"
    if "startup_ok env" for ws
    unfolding s0_def ec0_def using that by (simp add: main_outcome)
  have env: "env\<lparr>wakes := wakes env\<rparr> = env"
    by simp
  have first: "fst (main (env\<lparr>wakes := ws @ w # ws'\<rparr>)) = Exited 0"
    if "fst (main (env\<lparr>wakes := ws\<rparr>)) = Blocked" and "sig_in_poll w \<noteq> None"
  proof -
    from that have ok: "startup_ok env" and blocked: "fst (event_loop ws ec0 s0) = Blocked"
      by (simp_all add: mb)
    from that obtain sig_num where sg: "sig_in_poll w = Some sig_num" by auto
    have "event_loop (ws @ w # ws') ec0 s0
          = event_loop (w # ws') (fst (snd (event_loop ws ec0 s0))) (snd (snd (event_loop ws ec0 s0)))"
      by (rule event_loop_append [OF blocked])
    also have "fst \<dots> = Returned"
      using event_loop_blocked_flag [OF blocked] sg by (simp add: event_loop_signal)
    finally show ?thesis
      using ok by (simp add: mo)
  qed
  have forth: "\<exists>ws1 w ws2. wakes env = ws1 @ w # ws2 \<and> fst (main (env\<lparr>wakes := ws1\<rparr>)) = Blocked
                            \<and> sig_in_poll w = None \<and> poll_ret w < 0"
    if exit: "fst (main env) = Exited ERROR_PRESSURE_POLL_FDS"
  proof -
    have ok: "startup_ok env"
      using main_not_started [of env] exit
      by (auto simp: ERROR_PRESSURE_POLL_FDS_def ERROR_KERNEL_UNSUPPORTED_def
          ERROR_PRESSURE_OPEN_def ERROR_PRESSURE_WRITE_def)
    from exit mo [OF ok, of "wakes env"]
    have "fst (event_loop (wakes env) ec0 s0) = Exited ERROR_PRESSURE_POLL_FDS"
      by (simp add: env ERROR_PRESSURE_POLL_FDS_def split: outcome.splits)
    from event_loop_poll_exit [OF this] ok show ?thesis
      by (simp add: mb)
  qed
  have only_if: "fst (main env) = Exited ERROR_PRESSURE_POLL_FDS"
    if "\<exists>ws1 w ws2. wakes env = ws1 @ w # ws2 \<and> fst (main (env\<lparr>wakes := ws1\<rparr>)) = Blocked
                      \<and> sig_in_poll w = None \<and> poll_ret w < 0"
  proof -
    from that obtain ws1 w ws2 where split: "wakes env = ws1 @ w # ws2"
      and ok: "startup_ok env" and blocked: "fst (event_loop ws1 ec0 s0) = Blocked"
      and w: "sig_in_poll w = None" "poll_ret w < 0"
      by (auto simp: mb)
    have "event_loop (ws1 @ w # ws2) ec0 s0
          = event_loop (w # ws2) (fst (snd (event_loop ws1 ec0 s0))) (snd (snd (event_loop ws1 ec0 s0)))"
      by (rule event_loop_append [OF blocked])
    also have "fst \<dots> = Exited ERROR_PRESSURE_POLL_FDS"
      using event_loop_blocked_flag [OF blocked] w by (simp add: event_loop_poll_error)
    finally show ?thesis
      using mo [OF ok, of "wakes env"] by (simp add: env) (simp add: split)
  qed
  from first forth only_if show ?thesis by blast
qed

lemma main_example_blocked: "fst (main (example_env [])) = Blocked"
  using loop_entry_facts(3) [OF startup_ok_example, of "[]"]
  by (simp add: main_blocked startup_ok_example) (simp add: example_env_def)

lemma example_env_wakes: "(example_env ws)\<lparr>wakes := ws'\<rparr> = example_env ws'"
  by (simp add: example_env_def)

theorem C5_termination_exits_cleanly_witness:
  "fst (main (example_env [sigint_wake])) = Exited 0
   \<and> fst (main (example_env [failed_wake])) = Exited ERROR_PRESSURE_POLL_FDS"
proof -
  have sig: "sig_in_poll sigint_wake \<noteq> None"
    by (simp add: sigint_wake_def)
  have failed: "wakes (example_env [failed_wake]) = [] @ failed_wake # []"
    "sig_in_poll failed_wake = None" "poll_ret failed_wake < 0"
    by (simp_all add: example_env_def failed_wake_def)
  have blocked: "fst (main ((example_env [failed_wake])\<lparr>wakes := []\<rparr>)) = Blocked"
    "fst (main ((example_env [])\<lparr>wakes := []\<rparr>)) = Blocked"
    by (simp_all add: example_env_wakes main_example_blocked)
  from C5_termination_exits_cleanly
      [where env = "example_env []" and ws = "[]" and w = sigint_wake and ws' = "[]"] sig blocked(2)
  have "fst (main (example_env [sigint_wake])) = Exited 0"
    by (simp add: example_env_wakes)
  moreover from C5_termination_exits_cleanly [where env = "example_env [failed_wake]"]
    failed blocked(1)
  have "fst (main (example_env [failed_wake])) = Exited ERROR_PRESSURE_POLL_FDS"
    by blast
  ultimately show ?thesis ..
qed




section \<open>Reports\<close>

text \<open>
  One wake that the loop processes, in terms of what poll left in \<^verbatim>\<open>revents\<close>: the
  files reported and the count printed for a domain.
\<close>

lemma wake_reports_poll:
  assumes "registered s" and "continue_event_loop s = 1"
    and "sig_in_poll w = None" and "0 \<le> poll_ret w"
  shows "report_paths (out (snd (snd (event_loop [w] ec s)))) =
           report_paths (out s) @
             map (pressure_file s)
               (takeWhile (\<lambda>i. poll_revents w i AND POLLERR = 0)
                  (filter (\<lambda>i. poll_revents w i \<noteq> 0) [0..<SZ_IDX]))"
proof -
  have run: "continue_event_loop (poll w s) \<noteq> 0"
    using assms by simp
  show ?thesis
    using handle_fds_reports [OF run, of w "[0..<SZ_IDX]" ec] assms
    by (simp add: event_loop_single reach_poll)
qed


text \<open>
  C7. In one wake the reports are emitted one after the other in the order CPU, IO,
  MEMORY: the files named by the report lines of a wake are those of the domains with
  a nonzero \<^verbatim>\<open>revents\<close>, in index order, up to the first that signals POLLERR, and so
  a subsequence of the three pressure files in their fixed order.
\<close>

theorem C7_report_order:
  assumes "configured s" and "registered s" and "continue_event_loop s = 1"
    and "sig_in_poll w = None" and "0 \<le> poll_ret w"
  shows "report_paths (out (snd (snd (event_loop [w] ec s)))) =
           report_paths (out s) @
             map (pressure_file s)
               (takeWhile (\<lambda>i. poll_revents w i AND POLLERR = 0)
                  (filter (\<lambda>i. poll_revents w i \<noteq> 0) [FD_CPU_IDX, FD_IO_IDX, FD_MEMORY_IDX]))
       \<and> subseq (map (pressure_file s)
                   (takeWhile (\<lambda>i. poll_revents w i AND POLLERR = 0)
                      (filter (\<lambda>i. poll_revents w i \<noteq> 0) [FD_CPU_IDX, FD_IO_IDX, FD_MEMORY_IDX])))
           [CPU_PRESSURE_FILE, IO_PRESSURE_FILE, MEMORY_PRESSURE_FILE]"
proof -
  let ?reach = "takeWhile (\<lambda>i. poll_revents w i AND POLLERR = 0)
                  (filter (\<lambda>i. poll_revents w i \<noteq> 0) [0..<SZ_IDX])"
  have idx: "[FD_CPU_IDX, FD_IO_IDX, FD_MEMORY_IDX] = [0..<SZ_IDX]"
    by (simp add: upt_SZ_IDX FD_CPU_IDX_def FD_IO_IDX_def FD_MEMORY_IDX_def)
  have "report_paths (out (snd (snd (event_loop [w] ec s)))) =
          report_paths (out s) @ map (pressure_file s) ?reach"
    by (rule wake_reports_poll [OF assms(2-5)])
  moreover have "subseq (map (pressure_file s) ?reach) (map (pressure_file s) [0..<SZ_IDX])"
    by (intro subseq_map subseq_takeWhile_filter)
  moreover have "map (pressure_file s) [0..<SZ_IDX]
                 = [CPU_PRESSURE_FILE, IO_PRESSURE_FILE, MEMORY_PRESSURE_FILE]"
    using assms(1)
    by (simp add: upt_SZ_IDX configured_def CPU_PRESSURE_FILE_def IO_PRESSURE_FILE_def
        MEMORY_PRESSURE_FILE_def)
  ultimately show ?thesis
    by (simp only: idx)
qed

theorem C7_report_order_witness:
  "report_paths (out (snd (snd (event_loop [all_distress_wake] example_counters example_registered))))
     = [''/proc/pressure/cpu'', ''/proc/pressure/io'', ''/proc/pressure/memory'']"
proof -
  have "sig_in_poll all_distress_wake = None" "0 \<le> poll_ret all_distress_wake"
    by (simp_all add: all_distress_wake_def)
  from C7_report_order [OF example_registered_facts(1,2,3) this, of example_counters]
  show ?thesis
    by (simp add: example_registered_reports example_registered_paths all_distress_wake_def
        FD_CPU_IDX_def FD_IO_IDX_def FD_MEMORY_IDX_def POLLERR_def POLLPRI_def)
qed

text \<open>
  C2 at a wake in which the CPU handle signals POLLHUP, which is neither POLLPRI nor
  POLLERR. The loop tests \<^verbatim>\<open>fds[i].events\<close>, which registration has set to POLLPRI,
  instead of \<^verbatim>\<open>fds[i].revents\<close>: it emits a report for CPU and goes back to waiting.
\<close>

theorem C2_hangup_is_reported:
  "poll_revents hangup_wake FD_CPU_IDX = POLLHUP
   \<and> POLLHUP AND POLLPRI = 0 \<and> POLLHUP AND POLLERR = 0
   \<and> fst (main (example_env [hangup_wake])) = Blocked
   \<and> report_paths (out (snd (main (example_env [hangup_wake])))) = [CPU_PRESSURE_FILE]"
proof -
  define s0 where
    "s0 = emit (Stdout ([NL] @ ''Polling for events...'' @ [NL])) (loop_entry (example_env [hangup_wake]))"
  define ec0 where "ec0 = (\<lambda>i::nat. 1 :: 32 word)"
  note ok = startup_ok_example [of "[hangup_wake]"]
  have s0: "configured s0" "registered s0" "continue_event_loop s0 = 1" "report_paths (out s0) = []"
    "pressure_file s0 0 = ''/proc/pressure/cpu''"
    using loop_entry_facts(1-3) [OF ok]
    by (simp_all add: s0_def loop_entry_reports) (simp add: configured_def)
  have w: "sig_in_poll hangup_wake = None" "0 \<le> poll_ret hangup_wake"
    "\<forall>i<SZ_IDX. poll_revents hangup_wake i AND POLLERR = 0"
    by (simp_all add: hangup_wake_def POLLHUP_def POLLERR_def)
  have "fst (event_loop [hangup_wake] ec0 s0) = Blocked"
    using w by (intro event_loop_blocked s0) simp
  then have "fst (main (example_env [hangup_wake])) = Blocked"
    using main_outcome(1) [OF ok] by (simp add: s0_def ec0_def example_env_def)
  moreover have "report_paths (out (snd (snd (event_loop [hangup_wake] ec0 s0)))) = [CPU_PRESSURE_FILE]"
    using wake_reports_poll [OF s0(2,3) w(1,2), of ec0]
    by (simp add: s0 upt_SZ_IDX hangup_wake_def POLLHUP_def POLLERR_def CPU_PRESSURE_FILE_def)
  then have "report_paths (out (snd (main (example_env [hangup_wake])))) = [CPU_PRESSURE_FILE]"
    using main_outcome(2) [OF ok] by (simp add: s0_def ec0_def example_env_def)
  ultimately show ?thesis
    by (simp add: hangup_wake_def FD_CPU_IDX_def POLLHUP_def POLLPRI_def POLLERR_def)
qed






text \<open>
  C10 at a file of 128 bytes. The read fills the whole array, no NUL is left in it, and
  the array holds no C string for \<^verbatim>\<open>%s\<close> to print: the report for CPU passes printf
  an array without terminator.
\<close>

theorem C10_full_buffer_unterminated:
  "length (rd_data long_content) = SZ_CONTENT
   \<and> content_str (set_content_str long_content FD_CPU_IDX example_registered)
       = rd_data long_content
   \<and> c_str (rd_data long_content) = None
   \<and> last (out (snd (main (example_env [long_content_wake])))) =
       Printf_report CPU_PRESSURE_FILE 1 (example_clock FD_CPU_IDX) (rd_data long_content)"
proof -
  define s0 where
    "s0 = emit (Stdout ([NL] @ ''Polling for events...'' @ [NL]))
            (loop_entry (example_env [long_content_wake]))"
  define ec0 where "ec0 = (\<lambda>i::nat. 1 :: 32 word)"
  define s1 where "s1 = poll long_content_wake s0"
  note ok = startup_ok_example [of "[long_content_wake]"]
  have w: "sig_in_poll long_content_wake = None" "0 \<le> poll_ret long_content_wake"
    by (simp_all add: long_content_wake_def)
  have s0: "continue_event_loop s0 = 1"
    using loop_entry_facts(3) [OF ok] by (simp add: s0_def)
  have s1: "continue_event_loop s1 = 1" "pressure_file s1 0 = ''/proc/pressure/cpu''"
    "events (fds s1 0) = POLLPRI"
    "revents (fds s1 0) = POLLPRI" "revents (fds s1 (Suc 0)) = 0" "revents (fds s1 2) = 0"
    using loop_entry_facts(1-3) [OF ok] w
    by (simp_all add: s1_def s0_def configured_def registered_def)
       (simp_all add: long_content_wake_def SZ_IDX_def)
  have buf: "content_str (set_content_str long_content i s) = rd_data long_content" for i s
    by (simp add: set_content_str_buffer long_content_def SZ_CONTENT_def)
  have "last (out (snd (snd (handle_fds long_content_wake [0..<SZ_IDX] ec0 s1)))) =
          Printf_report CPU_PRESSURE_FILE 1 (example_clock FD_CPU_IDX) (rd_data long_content)"
    using s1
    by (simp add: upt_SZ_IDX handle_fd_def Let_def set_time_str_def POLLPRI_def POLLERR_def
        buf ec0_def CPU_PRESSURE_FILE_def FD_CPU_IDX_def)
       (simp add: long_content_wake_def buf)
  moreover have "wakes (example_env [long_content_wake]) = [long_content_wake]"
    by (simp add: example_env_def)
  then have "snd (main (example_env [long_content_wake])) =
               snd (snd (event_loop [long_content_wake] ec0 s0))"
    unfolding s0_def ec0_def using main_outcome(2) [OF ok] by (simp only:)
  moreover have "snd (event_loop [long_content_wake] ec0 s0) =
                   snd (handle_fds long_content_wake [0..<SZ_IDX] ec0 s1)"
    unfolding s1_def by (rule event_loop_single [OF s0 w])
  ultimately have "last (out (snd (main (example_env [long_content_wake])))) =
               Printf_report CPU_PRESSURE_FILE 1 (example_clock FD_CPU_IDX) (rd_data long_content)"
    by (simp only:)
  moreover have "c_str (rd_data long_content) = None"
    by (simp add: c_str_def long_content_def NUL_def NL_def)
  moreover have "length (rd_data long_content) = SZ_CONTENT"
    by (simp add: long_content_def SZ_CONTENT_def)
  ultimately show ?thesis
    by (simp add: buf)
qed

end
